theory Spec2Isabelle
  imports Main
begin

section \<open>Syntax trees\<close>

text \<open>
  The handlers of \<^verbatim>\<open>src/opt/index.ts\<close> work on TypeScript syntax trees: each one parses
  the module text (\<^verbatim>\<open>ts.createSourceFile\<close>), runs a visitor over the tree and prints the
  result (\<^verbatim>\<open>transformFunction\<close>). Parser and printer are external collaborators, so a
  module's content is held here as the tree itself: the list of statements of its
  source file. The node kinds the visitors test for are constructors of their own; every
  other kind is an \<open>OtherExpression\<close> or \<open>OtherStatement\<close> that lists its children in
  source order. Type annotations, type arguments and parameter initialisers are left out.

  A binding name is an identifier or a destructuring pattern (given by the names it binds).
\<close>

datatype BindingName = BindingIdentifier string | BindingPattern "string list"

text \<open>Import and export specifiers: \<open>propertyName\<close> (optional) and \<open>name\<close>.\<close>

datatype ImportSpecifier = ImportSpecifier "string option" string

datatype NamedImportBindings = NamedImports "ImportSpecifier list" | NamespaceImport string

text \<open>An import clause: the default binding \<open>name\<close> and the \<open>namedBindings\<close>.\<close>

datatype ImportClause = ImportClause "string option" "NamedImportBindings option"

datatype ExportSpecifier = ExportSpecifier "string option" string

text \<open>
  \<open>FunctionLike kind name parameters body\<close> is a function expression, a block-bodied arrow
  function, a method, a constructor or an accessor; its body is a block with the given
  statements. \<open>ArrowFunction parameters e\<close> is an arrow function with the expression body \<open>e\<close>.
  Class members are expression-level nodes (\<open>FunctionLike\<close> for methods, \<open>OtherExpression\<close>
  for property declarations).

  \<open>VariableStatement modifiers keyword declarations\<close>: the keyword is \<open>const\<close>,
  \<open>let\<close> or \<open>var\<close>, and each declaration is its binding name and its optional
  initialiser. The first argument of every declaration statement is its list of
  modifiers (\<open>export\<close>, \<open>declare\<close>, ...).
\<close>

datatype expr =
    Identifier string
  | Literal string
  | CallExpression expr "expr list"
  | PropertyAccessExpression expr string
  | NewExpression expr "expr list"
  | ArrowFunction "string list" expr
  | FunctionLike string "string option" "string list" "stmt list"
  | OtherExpression string "expr list"
and stmt =
    VariableStatement "string list" string "(BindingName \<times> expr option) list"
  | FunctionDeclaration "string list" "string option" "string list" "stmt list"
  | ClassDeclaration "string list" "string option" "expr list"
  | EnumDeclaration "string list" string "expr list"
  | InterfaceDeclaration "string list" string
  | TypeAliasDeclaration "string list" string
  | Block "stmt list"
  | ExpressionStatement expr
  | ExportDeclaration "ExportSpecifier list" "string option"
  | ExportAssignment expr
  | ImportDeclaration "ImportClause option" string
  | OtherStatement string "expr list" "stmt list"

text \<open>
  \<^verbatim>\<open>SuSee.DepsFile\<close>: a module is its path (the field \<^verbatim>\<open>file\<close>) and its content.
\<close>

record DepsFile =
  dep_file :: string
  content :: "stmt list"

section \<open>The shared maps\<close>

text \<open>
  \<^verbatim>\<open>SuSee.DuplicatesNameMap\<close> is a \<^verbatim>\<open>Map<string, Set<{ file: string }>>\<close>. A JavaScript map
  keeps its keys in insertion order. The members of each set are object literals
  \<^verbatim>\<open>{ file }\<close>, allocated afresh at every \<^verbatim>\<open>new Set([{ file }])\<close> and every
  \<^verbatim>\<open>.add({ file })\<close>; a set compares objects by identity, so no two members are ever equal
  and the set grows by one at each \<^verbatim>\<open>add\<close>. A set is therefore the list of the \<open>file\<close>
  fields of its members in insertion order, and its \<^verbatim>\<open>size\<close> is the length of that list.
\<close>

type_synonym DuplicatesNameMap = "(string \<times> string list) list"

definition Map_has :: "DuplicatesNameMap \<Rightarrow> string \<Rightarrow> bool" where
  "Map_has m k = (map_of m k \<noteq> None)"

definition Map_get :: "DuplicatesNameMap \<Rightarrow> string \<Rightarrow> string list" where
  "Map_get m k = (case map_of m k of Some v \<Rightarrow> v | None \<Rightarrow> [])"

fun Map_set :: "DuplicatesNameMap \<Rightarrow> string \<Rightarrow> string list \<Rightarrow> DuplicatesNameMap" where
  "Map_set [] k v = [(k, v)]"
| "Map_set ((k', v') # m) k v = (if k' = k then (k, v) # m else (k', v') # Map_set m k v)"

text \<open>
  The recording step the collector repeats in both of its branches:
  \<^verbatim>\<open>if (!namesMap.has($name)) namesMap.set($name, new Set([{ file }]));
  else namesMap.get($name)!.add({ file });\<close>
\<close>

definition record_name :: "string \<Rightarrow> string \<Rightarrow> DuplicatesNameMap \<Rightarrow> DuplicatesNameMap" where
  "record_name name f namesMap =
     (if \<not> Map_has namesMap name then Map_set namesMap name [f]
      else Map_set namesMap name (Map_get namesMap name @ [f]))"

text \<open>\<^verbatim>\<open>namesMap.has(base) && namesMap.get(base)!.size > 1\<close>\<close>

definition is_duplicate :: "DuplicatesNameMap \<Rightarrow> string \<Rightarrow> bool" where
  "is_duplicate namesMap b = (Map_has namesMap b \<and> length (Map_get namesMap b) > 1)"

text \<open>\<^verbatim>\<open>SuSee.NamesSets\<close>: an array of \<^verbatim>\<open>{ base, file, newName }\<close> entries
  (the field \<^verbatim>\<open>file\<close> is \<open>entry_file\<close>).\<close>

record NamesSet =
  base :: string
  entry_file :: string
  newName :: string

type_synonym NamesSets = "NamesSet list"

text \<open>\<^verbatim>\<open>map.find((m) => m.base === base && m.file === file)\<close>\<close>

definition find_entry :: "NamesSets \<Rightarrow> string \<Rightarrow> string \<Rightarrow> NamesSet option" where
  "find_entry entries b f = List.find (\<lambda>m. base m = b \<and> entry_file m = f) entries"

section \<open>The name generator\<close>

text \<open>
  \<^verbatim>\<open>uniqueName()\<close> owns the map \<open>storedPrefix\<close>; \<^verbatim>\<open>setPrefix\<close> throws when the key is
  already stored, and otherwise returns a generator that owns \<^verbatim>\<open>_fix\<close> (\<open>gen_fix\<close>) and the array
  \<open>names\<close> of the names it has handed out.
\<close>

record NameGenerator =
  gen_fix :: string
  names :: "string list"

datatype error = DuplicateConfiguration | ProcessExit nat

definition setPrefix ::
  "(string \<times> string) list \<Rightarrow> string \<Rightarrow> string \<Rightarrow> error + ((string \<times> string) list \<times> NameGenerator)" where
  "setPrefix storedPrefix key val =
     (if map_of storedPrefix key \<noteq> None then Inl DuplicateConfiguration
      else Inr (storedPrefix @ [(key, val)], \<lparr>gen_fix = val, names = []\<rparr>))"

text \<open>The decimal numeral of a number, as a template literal prints it.\<close>

fun string_of_nat :: "nat \<Rightarrow> string" where
  "string_of_nat n =
     (if n < 10 then [char_of (48 + n)]
      else string_of_nat (n div 10) @ [char_of (48 + n mod 10)])"

declare string_of_nat.simps [simp del]

text \<open>\<^verbatim>\<open>getName(input)\<close>; the empty string is falsy, as \<open>undefined\<close> is.\<close>

definition getName :: "string \<Rightarrow> NameGenerator \<Rightarrow> string \<times> NameGenerator" where
  "getName input g =
     (let len = length (names g);
          name = (if gen_fix g \<noteq> [] then gen_fix g @ input @ ''_'' @ string_of_nat (len + 1)
                  else ''$nyein'' @ input @ ''_'' @ string_of_nat (len + 1))
      in (name, g\<lparr>names := names g @ [name]\<rparr>))"

text \<open>
  \<^verbatim>\<open>const dupName = uniqueName().setPrefix({ key: "DuplicatesNames", value: "d_" })\<close>,
  evaluated once when the module is loaded.
\<close>

definition dupName :: NameGenerator where
  "dupName = \<lparr>gen_fix = ''d_'', names = []\<rparr>"

section \<open>The collector\<close>

text \<open>The \<^verbatim>\<open>forEach\<close> over the declarations of a variable statement.\<close>

fun collect_declarations ::
  "string \<Rightarrow> (BindingName \<times> expr option) list \<Rightarrow> DuplicatesNameMap \<Rightarrow> DuplicatesNameMap" where
  "collect_declarations f [] m = m"
| "collect_declarations f ((BindingIdentifier name, _) # ds) m =
     collect_declarations f ds (record_name name f m)"
| "collect_declarations f ((BindingPattern _, _) # ds) m = collect_declarations f ds m"

text \<open>\<^verbatim>\<open>const $name = node.name?.text; if ($name) { ... }\<close>\<close>

fun collect_named :: "string \<Rightarrow> string option \<Rightarrow> DuplicatesNameMap \<Rightarrow> DuplicatesNameMap" where
  "collect_named f None m = m"
| "collect_named f (Some name) m = (if name \<noteq> [] then record_name name f m else m)"

text \<open>
  \<^verbatim>\<open>visitNode(node, isGlobalScope)\<close>. Every branch returns the node it was given, so only
  the map is threaded. A block, a function declaration, a function expression, an arrow
  function, a method and a class declaration visit their children with \<open>False\<close>; every
  other node visits them with the flag it was given.
\<close>

primrec
  collector_expr :: "string \<Rightarrow> bool \<Rightarrow> expr \<Rightarrow> DuplicatesNameMap \<Rightarrow> DuplicatesNameMap" and
  collector_exprs :: "string \<Rightarrow> bool \<Rightarrow> expr list \<Rightarrow> DuplicatesNameMap \<Rightarrow> DuplicatesNameMap" and
  collector_stmt :: "string \<Rightarrow> bool \<Rightarrow> stmt \<Rightarrow> DuplicatesNameMap \<Rightarrow> DuplicatesNameMap" and
  collector_stmts :: "string \<Rightarrow> bool \<Rightarrow> stmt list \<Rightarrow> DuplicatesNameMap \<Rightarrow> DuplicatesNameMap" and
  collector_decls ::
    "string \<Rightarrow> bool \<Rightarrow> (BindingName \<times> expr option) list \<Rightarrow> DuplicatesNameMap \<Rightarrow> DuplicatesNameMap" and
  collector_decl ::
    "string \<Rightarrow> bool \<Rightarrow> BindingName \<times> expr option \<Rightarrow> DuplicatesNameMap \<Rightarrow> DuplicatesNameMap" and
  collector_init :: "string \<Rightarrow> bool \<Rightarrow> expr option \<Rightarrow> DuplicatesNameMap \<Rightarrow> DuplicatesNameMap"
where
  "collector_expr f g (Identifier x) m = m"
| "collector_expr f g (Literal x) m = m"
| "collector_expr f g (CallExpression e args) m = collector_exprs f g args (collector_expr f g e m)"
| "collector_expr f g (PropertyAccessExpression e x) m = collector_expr f g e m"
| "collector_expr f g (NewExpression e args) m = collector_exprs f g args (collector_expr f g e m)"
| "collector_expr f g (ArrowFunction ps e) m = collector_expr f False e m"
| "collector_expr f g (FunctionLike k x ps body) m = collector_stmts f False body m"
| "collector_expr f g (OtherExpression k es) m = collector_exprs f g es m"
| "collector_exprs f g [] m = m"
| "collector_exprs f g (e # es) m = collector_exprs f g es (collector_expr f g e m)"
| "collector_stmt f g (VariableStatement mods k ds) m =
     collector_decls f g ds (if g then collect_declarations f ds m else m)"
| "collector_stmt f g (FunctionDeclaration mods name ps body) m =
     collector_stmts f False body (if g then collect_named f name m else m)"
| "collector_stmt f g (ClassDeclaration mods name members) m =
     collector_exprs f False members (if g then collect_named f name m else m)"
| "collector_stmt f g (EnumDeclaration mods name members) m =
     collector_exprs f g members (if g then collect_named f (Some name) m else m)"
| "collector_stmt f g (InterfaceDeclaration mods name) m =
     (if g then collect_named f (Some name) m else m)"
| "collector_stmt f g (TypeAliasDeclaration mods name) m =
     (if g then collect_named f (Some name) m else m)"
| "collector_stmt f g (Block ss) m = collector_stmts f False ss m"
| "collector_stmt f g (ExpressionStatement e) m = collector_expr f g e m"
| "collector_stmt f g (ExportDeclaration specs from) m = m"
| "collector_stmt f g (ExportAssignment e) m = collector_expr f g e m"
| "collector_stmt f g (ImportDeclaration clause spec) m = m"
| "collector_stmt f g (OtherStatement k es ss) m = collector_stmts f g ss (collector_exprs f g es m)"
| "collector_stmts f g [] m = m"
| "collector_stmts f g (s # ss) m = collector_stmts f g ss (collector_stmt f g s m)"
| "collector_decls f g [] m = m"
| "collector_decls f g (d # ds) m = collector_decls f g ds (collector_decl f g d m)"
| "collector_decl f g (name, init) m = collector_init f g init m"
| "collector_init f g None m = m"
| "collector_init f g (Some e) m = collector_expr f g e m"

text \<open>
  The handler \<^verbatim>\<open>collector(namesMap, compilerOptions)\<close>: the visitor starts at the source
  file with \<open>isGlobalScope = true\<close>, and the source file visits its statements with it.
\<close>

definition collector :: "DepsFile \<Rightarrow> DuplicatesNameMap \<Rightarrow> DepsFile \<times> DuplicatesNameMap" where
  "collector d namesMap = (d, collector_stmts (dep_file d) True (content d) namesMap)"

section \<open>Module keys\<close>

text \<open>
  The functions of \<^verbatim>\<open>node:path\<close> (POSIX flavour) that the module keys are computed with.
  They belong to the runtime, not to the repository, and follow the library's documented
  behaviour. A path is cut at every \<open>/\<close> into segments; \<^verbatim>\<open>normalizeString\<close> drops empty and \<open>.\<close>
  segments and lets a \<open>..\<close> segment remove the segment before it (or keeps it, when the
  path may climb above its start).
\<close>

primrec split_path :: "string \<Rightarrow> string list" where
  "split_path [] = [[]]"
| "split_path (c # cs) =
     (if c = CHR ''/'' then [] # split_path cs
      else (case split_path cs of [] \<Rightarrow> [[c]] | s # ss \<Rightarrow> (c # s) # ss))"

fun join_path :: "string list \<Rightarrow> string" where
  "join_path [] = []"
| "join_path [s] = s"
| "join_path (s # ss) = s @ ''/'' @ join_path ss"

definition normalize_step :: "bool \<Rightarrow> string list \<Rightarrow> string \<Rightarrow> string list" where
  "normalize_step allowAboveRoot res seg =
     (if seg = [] \<or> seg = ''.'' then res
      else if seg = ''..'' then
        (if res \<noteq> [] \<and> last res \<noteq> ''..'' then butlast res
         else if allowAboveRoot then res @ [''..''] else res)
      else res @ [seg])"

definition normalizeString :: "string \<Rightarrow> bool \<Rightarrow> string" where
  "normalizeString path allowAboveRoot =
     join_path (foldl (normalize_step allowAboveRoot) [] (split_path path))"

definition isAbsolute :: "string \<Rightarrow> bool" where
  "isAbsolute path = (path \<noteq> [] \<and> hd path = CHR ''/'')"

text \<open>\<^verbatim>\<open>path.normalize\<close>\<close>

definition path_normalize :: "string \<Rightarrow> string" where
  "path_normalize path =
     (if path = [] then ''.''
      else let trailingSeparator = (last path = CHR ''/'');
               p = normalizeString path (\<not> isAbsolute path)
           in if p = [] then (if isAbsolute path then ''/'' else if trailingSeparator then ''./'' else ''.'')
              else (if isAbsolute path then ''/'' else []) @ p @ (if trailingSeparator then ''/'' else []))"

text \<open>\<^verbatim>\<open>path.join\<close>: the non-empty arguments, joined by \<open>/\<close> and normalised.\<close>

definition path_join :: "string list \<Rightarrow> string" where
  "path_join args =
     (let joined = filter (\<lambda>a. a \<noteq> []) args
      in if joined = [] then ''.'' else path_normalize (join_path joined))"

text \<open>
  \<^verbatim>\<open>path.resolve\<close>: the arguments are taken from the right, and the current working
  directory after them, until the path is absolute.
\<close>

fun resolve_loop :: "string list \<Rightarrow> string \<Rightarrow> string \<times> bool" where
  "resolve_loop [] resolvedPath = (resolvedPath, False)"
| "resolve_loop (path # rest) resolvedPath =
     (if path = [] then resolve_loop rest resolvedPath
      else if hd path = CHR ''/'' then (path @ ''/'' @ resolvedPath, True)
      else resolve_loop rest (path @ ''/'' @ resolvedPath))"

definition path_resolve :: "string \<Rightarrow> string list \<Rightarrow> string" where
  "path_resolve cwd args =
     (let (resolvedPath, resolvedAbsolute) = resolve_loop (rev args @ [cwd]) [];
          p = normalizeString resolvedPath (\<not> resolvedAbsolute)
      in if resolvedAbsolute then ''/'' @ p else if p \<noteq> [] then p else ''.'')"

text \<open>
  \<^verbatim>\<open>path.dirname\<close>: the scan runs from the last character down to index 1, skips the
  trailing separators and stops at the separator before the last segment.
\<close>

definition path_dirname :: "string \<Rightarrow> string" where
  "path_dirname path =
     (if path = [] then ''.''
      else let hasRoot = (hd path = CHR ''/'');
               r = dropWhile (\<lambda>c. c \<noteq> CHR ''/'') (dropWhile (\<lambda>c. c = CHR ''/'') (rev (tl path)))
           in if r = [] then (if hasRoot then ''/'' else ''.'')
              else if hasRoot \<and> length r = 1 then ''//''
              else take (length r) path)"

text \<open>
  \<^verbatim>\<open>path.parse\<close>. The scan runs from the last character down to \<open>start\<close>; \<open>startPart\<close>
  stays 0 when no separator is met. There is no extension when the base has no dot, when
  its last dot is its first character, or in the case the source singles out for \<open>..\<close>.
\<close>

record ParsedPath =
  parsed_root :: string
  parsed_dir :: string
  parsed_base :: string
  parsed_ext :: string
  parsed_name :: string

definition path_parse :: "string \<Rightarrow> ParsedPath" where
  "path_parse path =
     (if path = [] then \<lparr>parsed_root = [], parsed_dir = [], parsed_base = [], parsed_ext = [],
             parsed_name = []\<rparr>
      else
        let isAbs = (hd path = CHR ''/'');
            start = (if isAbs then 1 else 0);
            r = dropWhile (\<lambda>c. c = CHR ''/'') (rev (drop start path));
            b = rev (takeWhile (\<lambda>c. c \<noteq> CHR ''/'') r);
            rest = dropWhile (\<lambda>c. c \<noteq> CHR ''/'') r;
            startPart = (if rest = [] then 0 else start + length rest);
            d = (if startPart > 0 then take (startPart - 1) path else if isAbs then ''/'' else []);
            bstart = (if rest = [] then start else startPart);
            afterDot = takeWhile (\<lambda>c. c \<noteq> CHR ''.'') (rev b);
            dotPos = length b - 1 - length afterDot;
            noExt = (CHR ''.'' \<notin> set b \<or> dotPos = 0 \<or>
                     (hd b = CHR ''.'' \<and> afterDot = [] \<and> bstart + dotPos = startPart + 1))
        in if noExt then
             \<lparr>parsed_root = (if isAbs then ''/'' else []), parsed_dir = d, parsed_base = b,
              parsed_ext = [], parsed_name = b\<rparr>
           else
             \<lparr>parsed_root = (if isAbs then ''/'' else []), parsed_dir = d, parsed_base = b,
              parsed_ext = drop dotPos b, parsed_name = take dotPos b\<rparr>)"

text \<open>\<^verbatim>\<open>normalizePathKey\<close> and \<^verbatim>\<open>getFileKey\<close>\<close>

definition normalizePathKey :: "string \<Rightarrow> string" where
  "normalizePathKey filePath =
     (let parsed = path_parse filePath;
          noExt = (if parsed_name parsed = ''index'' then parsed_dir parsed
                   else path_join [parsed_dir parsed, parsed_name parsed])
      in path_normalize noExt)"

definition getFileKey :: "string \<Rightarrow> string" where
  "getFileKey filePath = normalizePathKey filePath"

text \<open>
  \<^verbatim>\<open>getModuleKeyFromSpecifier\<close>. The module specifier of an import declaration is a string
  literal, given by its text; \<open>cwd\<close> is \<^verbatim>\<open>process.cwd()\<close>, which \<^verbatim>\<open>path.resolve\<close> reads.
\<close>

definition getModuleKeyFromSpecifier :: "string \<Rightarrow> string \<Rightarrow> string \<Rightarrow> string" where
  "getModuleKeyFromSpecifier cwd spec containingFile =
     (if spec \<noteq> [] \<and> (hd spec = CHR ''.'' \<or> hd spec = CHR ''/'') then
        normalizePathKey (path_resolve cwd [path_dirname containingFile, spec])
      else spec)"

section \<open>The updater\<close>

text \<open>
  The callback the updater maps over the declarations of a variable statement. A renamed
  declaration keeps its initialiser as it is; a declaration that binds a pattern, or whose
  name is not a duplicate, is returned as it is. The state is the call-site map and the
  generator \<^verbatim>\<open>dupName\<close>.
\<close>

type_synonym updater_state = "NamesSets \<times> NameGenerator"

fun update_declarations ::
  "DuplicatesNameMap \<Rightarrow> string \<Rightarrow> (BindingName \<times> expr option) list \<Rightarrow> updater_state \<Rightarrow>
     (BindingName \<times> expr option) list \<times> updater_state" where
  "update_declarations namesMap f [] st = ([], st)"
| "update_declarations namesMap f ((BindingIdentifier b, init) # ds) (callNameMap, gen) =
     (if is_duplicate namesMap b then
        (let (new, gen') = getName b gen;
             (ds', st') = update_declarations namesMap f ds
                (callNameMap @ [\<lparr>base = b, entry_file = f, newName = new\<rparr>], gen')
         in ((BindingIdentifier new, init) # ds', st'))
      else
        (let (ds', st') = update_declarations namesMap f ds (callNameMap, gen)
         in ((BindingIdentifier b, init) # ds', st')))"
| "update_declarations namesMap f ((BindingPattern ps, init) # ds) st =
     (let (ds', st') = update_declarations namesMap f ds st
      in ((BindingPattern ps, init) # ds', st'))"

text \<open>
  The test both the function and the class branch make:
  \<^verbatim>\<open>node.name && ts.isIdentifier(node.name)\<close> and then
  \<^verbatim>\<open>namesMap.has(base) && namesMap.get(base)!.size > 1\<close>.
\<close>

fun renamed_name :: "DuplicatesNameMap \<Rightarrow> string option \<Rightarrow> string option" where
  "renamed_name namesMap None = None"
| "renamed_name namesMap (Some b) = (if is_duplicate namesMap b then Some b else None)"

text \<open>
  \<^verbatim>\<open>visitor(node)\<close> of the updater. A variable statement is rebuilt from its mapped
  declarations and returned; a function or class declaration that is renamed is returned
  with its new name; neither has its children visited. Every other node has its children
  visited in order.
\<close>

primrec
  updater_expr :: "DuplicatesNameMap \<Rightarrow> string \<Rightarrow> expr \<Rightarrow> updater_state \<Rightarrow> expr \<times> updater_state" and
  updater_exprs ::
    "DuplicatesNameMap \<Rightarrow> string \<Rightarrow> expr list \<Rightarrow> updater_state \<Rightarrow> expr list \<times> updater_state" and
  updater_stmt :: "DuplicatesNameMap \<Rightarrow> string \<Rightarrow> stmt \<Rightarrow> updater_state \<Rightarrow> stmt \<times> updater_state" and
  updater_stmts ::
    "DuplicatesNameMap \<Rightarrow> string \<Rightarrow> stmt list \<Rightarrow> updater_state \<Rightarrow> stmt list \<times> updater_state"
where
  "updater_expr nm f (Identifier x) st = (Identifier x, st)"
| "updater_expr nm f (Literal x) st = (Literal x, st)"
| "updater_expr nm f (CallExpression e args) st =
     (let (e', st1) = updater_expr nm f e st;
          (args', st2) = updater_exprs nm f args st1
      in (CallExpression e' args', st2))"
| "updater_expr nm f (PropertyAccessExpression e x) st =
     (let (e', st1) = updater_expr nm f e st in (PropertyAccessExpression e' x, st1))"
| "updater_expr nm f (NewExpression e args) st =
     (let (e', st1) = updater_expr nm f e st;
          (args', st2) = updater_exprs nm f args st1
      in (NewExpression e' args', st2))"
| "updater_expr nm f (ArrowFunction ps e) st =
     (let (e', st1) = updater_expr nm f e st in (ArrowFunction ps e', st1))"
| "updater_expr nm f (FunctionLike k x ps body) st =
     (let (body', st1) = updater_stmts nm f body st in (FunctionLike k x ps body', st1))"
| "updater_expr nm f (OtherExpression k es) st =
     (let (es', st1) = updater_exprs nm f es st in (OtherExpression k es', st1))"
| "updater_exprs nm f [] st = ([], st)"
| "updater_exprs nm f (e # es) st =
     (let (e', st1) = updater_expr nm f e st;
          (es', st2) = updater_exprs nm f es st1
      in (e' # es', st2))"
| "updater_stmt nm f (VariableStatement mods k ds) st =
     (let (ds', st1) = update_declarations nm f ds st in (VariableStatement mods k ds', st1))"
| "updater_stmt nm f (FunctionDeclaration mods name ps body) st =
     (case renamed_name nm name of
        Some b \<Rightarrow>
          (let (new, gen') = getName b (snd st)
           in (FunctionDeclaration mods (Some new) ps body,
               (fst st @ [\<lparr>base = b, entry_file = f, newName = new\<rparr>], gen')))
      | None \<Rightarrow>
          (let (body', st1) = updater_stmts nm f body st
           in (FunctionDeclaration mods name ps body', st1)))"
| "updater_stmt nm f (ClassDeclaration mods name members) st =
     (case renamed_name nm name of
        Some b \<Rightarrow>
          (let (new, gen') = getName b (snd st)
           in (ClassDeclaration mods (Some new) members,
               (fst st @ [\<lparr>base = b, entry_file = f, newName = new\<rparr>], gen')))
      | None \<Rightarrow>
          (let (members', st1) = updater_exprs nm f members st
           in (ClassDeclaration mods name members', st1)))"
| "updater_stmt nm f (EnumDeclaration mods name members) st =
     (let (members', st1) = updater_exprs nm f members st
      in (EnumDeclaration mods name members', st1))"
| "updater_stmt nm f (InterfaceDeclaration mods name) st = (InterfaceDeclaration mods name, st)"
| "updater_stmt nm f (TypeAliasDeclaration mods name) st = (TypeAliasDeclaration mods name, st)"
| "updater_stmt nm f (Block ss) st =
     (let (ss', st1) = updater_stmts nm f ss st in (Block ss', st1))"
| "updater_stmt nm f (ExpressionStatement e) st =
     (let (e', st1) = updater_expr nm f e st in (ExpressionStatement e', st1))"
| "updater_stmt nm f (ExportDeclaration specs from) st = (ExportDeclaration specs from, st)"
| "updater_stmt nm f (ExportAssignment e) st =
     (let (e', st1) = updater_expr nm f e st in (ExportAssignment e', st1))"
| "updater_stmt nm f (ImportDeclaration clause spec) st = (ImportDeclaration clause spec, st)"
| "updater_stmt nm f (OtherStatement k es ss) st =
     (let (es', st1) = updater_exprs nm f es st;
          (ss', st2) = updater_stmts nm f ss st1
      in (OtherStatement k es' ss', st2))"
| "updater_stmts nm f [] st = ([], st)"
| "updater_stmts nm f (s # ss) st =
     (let (s', st1) = updater_stmt nm f s st;
          (ss', st2) = updater_stmts nm f ss st1
      in (s' # ss', st2))"

text \<open>The handler \<^verbatim>\<open>updater(namesMap, callNameMap, compilerOptions)\<close>.\<close>

definition updater ::
  "DuplicatesNameMap \<Rightarrow> DepsFile \<Rightarrow> updater_state \<Rightarrow> DepsFile \<times> updater_state" where
  "updater namesMap d st =
     (let (c, st') = updater_stmts namesMap (dep_file d) (content d) st
      in (d\<lparr>content := c\<rparr>, st'))"

section \<open>The reference rewriter\<close>

text \<open>
  The lookup that every rewriting site repeats: \<^verbatim>\<open>new_name\<close> starts as \<^verbatim>\<open>null\<close>, takes
  the new name of the call-site mapping when there is one, and otherwise that of the
  import mapping when there is one.
\<close>

definition new_name_of :: "NamesSets \<Rightarrow> NamesSets \<Rightarrow> string \<Rightarrow> string \<Rightarrow> string option" where
  "new_name_of callNameMap importNameMap b f =
     (case find_entry callNameMap b f of
        Some mapping \<Rightarrow> Some (newName mapping)
      | None \<Rightarrow>
          (case find_entry importNameMap b f of
             Some importMapping \<Rightarrow> Some (newName importMapping)
           | None \<Rightarrow> None))"

text \<open>\<^verbatim>\<open>if (new_name)\<close>: neither \<^verbatim>\<open>null\<close> nor the empty string.\<close>

fun truthy :: "string option \<Rightarrow> string option" where
  "truthy None = None"
| "truthy (Some n) = (if n = [] then None else Some n)"

text \<open>
  \<^verbatim>\<open>ts.isIdentifier(node.expression)\<close> followed by the lookup: the name to put in place of
  the expression, if it is an identifier that has one.
\<close>

fun rewritten_identifier :: "NamesSets \<Rightarrow> NamesSets \<Rightarrow> string \<Rightarrow> expr \<Rightarrow> string option" where
  "rewritten_identifier callNameMap importNameMap f (Identifier b) =
     truthy (new_name_of callNameMap importNameMap b f)"
| "rewritten_identifier callNameMap importNameMap f _ = None"

text \<open>
  \<^verbatim>\<open>visitor(node)\<close> of \<^verbatim>\<open>callExpression\<close>: a call, a property access or a \<^verbatim>\<open>new\<close>
  expression whose expression is an identifier with a new name is returned with that
  name, its other children as they are; every other node has its children visited.
\<close>

primrec
  callExpression_expr :: "NamesSets \<Rightarrow> NamesSets \<Rightarrow> string \<Rightarrow> expr \<Rightarrow> expr" and
  callExpression_exprs :: "NamesSets \<Rightarrow> NamesSets \<Rightarrow> string \<Rightarrow> expr list \<Rightarrow> expr list" and
  callExpression_stmt :: "NamesSets \<Rightarrow> NamesSets \<Rightarrow> string \<Rightarrow> stmt \<Rightarrow> stmt" and
  callExpression_stmts :: "NamesSets \<Rightarrow> NamesSets \<Rightarrow> string \<Rightarrow> stmt list \<Rightarrow> stmt list" and
  callExpression_decls ::
    "NamesSets \<Rightarrow> NamesSets \<Rightarrow> string \<Rightarrow> (BindingName \<times> expr option) list \<Rightarrow>
       (BindingName \<times> expr option) list" and
  callExpression_decl ::
    "NamesSets \<Rightarrow> NamesSets \<Rightarrow> string \<Rightarrow> BindingName \<times> expr option \<Rightarrow> BindingName \<times> expr option" and
  callExpression_init :: "NamesSets \<Rightarrow> NamesSets \<Rightarrow> string \<Rightarrow> expr option \<Rightarrow> expr option"
where
  "callExpression_expr cm im f (Identifier x) = Identifier x"
| "callExpression_expr cm im f (Literal x) = Literal x"
| "callExpression_expr cm im f (CallExpression e args) =
     (case rewritten_identifier cm im f e of
        Some new \<Rightarrow> CallExpression (Identifier new) args
      | None \<Rightarrow> CallExpression (callExpression_expr cm im f e) (callExpression_exprs cm im f args))"
| "callExpression_expr cm im f (PropertyAccessExpression e x) =
     (case rewritten_identifier cm im f e of
        Some new \<Rightarrow> PropertyAccessExpression (Identifier new) x
      | None \<Rightarrow> PropertyAccessExpression (callExpression_expr cm im f e) x)"
| "callExpression_expr cm im f (NewExpression e args) =
     (case rewritten_identifier cm im f e of
        Some new \<Rightarrow> NewExpression (Identifier new) args
      | None \<Rightarrow> NewExpression (callExpression_expr cm im f e) (callExpression_exprs cm im f args))"
| "callExpression_expr cm im f (ArrowFunction ps e) = ArrowFunction ps (callExpression_expr cm im f e)"
| "callExpression_expr cm im f (FunctionLike k x ps body) =
     FunctionLike k x ps (callExpression_stmts cm im f body)"
| "callExpression_expr cm im f (OtherExpression k es) =
     OtherExpression k (callExpression_exprs cm im f es)"
| "callExpression_exprs cm im f [] = []"
| "callExpression_exprs cm im f (e # es) =
     callExpression_expr cm im f e # callExpression_exprs cm im f es"
| "callExpression_stmt cm im f (VariableStatement mods k ds) =
     VariableStatement mods k (callExpression_decls cm im f ds)"
| "callExpression_stmt cm im f (FunctionDeclaration mods name ps body) =
     FunctionDeclaration mods name ps (callExpression_stmts cm im f body)"
| "callExpression_stmt cm im f (ClassDeclaration mods name members) =
     ClassDeclaration mods name (callExpression_exprs cm im f members)"
| "callExpression_stmt cm im f (EnumDeclaration mods name members) =
     EnumDeclaration mods name (callExpression_exprs cm im f members)"
| "callExpression_stmt cm im f (InterfaceDeclaration mods name) = InterfaceDeclaration mods name"
| "callExpression_stmt cm im f (TypeAliasDeclaration mods name) = TypeAliasDeclaration mods name"
| "callExpression_stmt cm im f (Block ss) = Block (callExpression_stmts cm im f ss)"
| "callExpression_stmt cm im f (ExpressionStatement e) =
     ExpressionStatement (callExpression_expr cm im f e)"
| "callExpression_stmt cm im f (ExportDeclaration specs from) = ExportDeclaration specs from"
| "callExpression_stmt cm im f (ExportAssignment e) = ExportAssignment (callExpression_expr cm im f e)"
| "callExpression_stmt cm im f (ImportDeclaration clause spec) = ImportDeclaration clause spec"
| "callExpression_stmt cm im f (OtherStatement k es ss) =
     OtherStatement k (callExpression_exprs cm im f es) (callExpression_stmts cm im f ss)"
| "callExpression_stmts cm im f [] = []"
| "callExpression_stmts cm im f (s # ss) =
     callExpression_stmt cm im f s # callExpression_stmts cm im f ss"
| "callExpression_decls cm im f [] = []"
| "callExpression_decls cm im f (d # ds) =
     callExpression_decl cm im f d # callExpression_decls cm im f ds"
| "callExpression_decl cm im f (name, init) = (name, callExpression_init cm im f init)"
| "callExpression_init cm im f None = None"
| "callExpression_init cm im f (Some e) = Some (callExpression_expr cm im f e)"

text \<open>The handler \<^verbatim>\<open>callExpression(callNameMap, importNameMap, compilerOptions)\<close>.\<close>

definition callExpression :: "NamesSets \<Rightarrow> NamesSets \<Rightarrow> DepsFile \<Rightarrow> DepsFile" where
  "callExpression callNameMap importNameMap d =
     d\<lparr>content := callExpression_stmts callNameMap importNameMap (dep_file d) (content d)\<rparr>"

section \<open>The export rewriter\<close>

text \<open>
  The lookup at an export site. A call-site mapping is pushed onto the export map under
  the file key of the module, whether or not its new name is then used.
\<close>

definition export_lookup ::
  "NamesSets \<Rightarrow> NamesSets \<Rightarrow> string \<Rightarrow> string \<Rightarrow> NamesSets \<Rightarrow> string option \<times> NamesSets" where
  "export_lookup cm im f b em =
     (truthy (new_name_of cm im b f),
      (case find_entry cm b f of
         Some mapping \<Rightarrow> em @ [\<lparr>base = b, entry_file = getFileKey f, newName = newName mapping\<rparr>]
       | None \<Rightarrow> em))"

fun exportExpression_specifier ::
  "NamesSets \<Rightarrow> NamesSets \<Rightarrow> string \<Rightarrow> ExportSpecifier \<Rightarrow> NamesSets \<Rightarrow> ExportSpecifier \<times> NamesSets" where
  "exportExpression_specifier cm im f (ExportSpecifier propertyName b) em =
     (case export_lookup cm im f b em of
        (Some new, em') \<Rightarrow> (ExportSpecifier propertyName new, em')
      | (None, em') \<Rightarrow> (ExportSpecifier propertyName b, em'))"

fun exportExpression_specifiers ::
  "NamesSets \<Rightarrow> NamesSets \<Rightarrow> string \<Rightarrow> ExportSpecifier list \<Rightarrow> NamesSets \<Rightarrow>
     ExportSpecifier list \<times> NamesSets" where
  "exportExpression_specifiers cm im f [] em = ([], em)"
| "exportExpression_specifiers cm im f (x # xs) em =
     (let (x', em1) = exportExpression_specifier cm im f x em;
          (xs', em2) = exportExpression_specifiers cm im f xs em1
      in (x' # xs', em2))"

text \<open>
  \<^verbatim>\<open>visitor(node)\<close> of \<^verbatim>\<open>exportExpression\<close>, with the export map as its state. An export
  assignment whose expression is an identifier makes the lookup; when no name comes out
  of it, or the expression is not an identifier, its children are visited.
\<close>

primrec
  exportExpression_expr :: "NamesSets \<Rightarrow> NamesSets \<Rightarrow> string \<Rightarrow> expr \<Rightarrow> NamesSets \<Rightarrow> expr \<times> NamesSets" and
  exportExpression_exprs ::
    "NamesSets \<Rightarrow> NamesSets \<Rightarrow> string \<Rightarrow> expr list \<Rightarrow> NamesSets \<Rightarrow> expr list \<times> NamesSets" and
  exportExpression_stmt :: "NamesSets \<Rightarrow> NamesSets \<Rightarrow> string \<Rightarrow> stmt \<Rightarrow> NamesSets \<Rightarrow> stmt \<times> NamesSets" and
  exportExpression_stmts ::
    "NamesSets \<Rightarrow> NamesSets \<Rightarrow> string \<Rightarrow> stmt list \<Rightarrow> NamesSets \<Rightarrow> stmt list \<times> NamesSets" and
  exportExpression_decls ::
    "NamesSets \<Rightarrow> NamesSets \<Rightarrow> string \<Rightarrow> (BindingName \<times> expr option) list \<Rightarrow> NamesSets \<Rightarrow>
       (BindingName \<times> expr option) list \<times> NamesSets" and
  exportExpression_decl ::
    "NamesSets \<Rightarrow> NamesSets \<Rightarrow> string \<Rightarrow> BindingName \<times> expr option \<Rightarrow> NamesSets \<Rightarrow>
       (BindingName \<times> expr option) \<times> NamesSets" and
  exportExpression_init ::
    "NamesSets \<Rightarrow> NamesSets \<Rightarrow> string \<Rightarrow> expr option \<Rightarrow> NamesSets \<Rightarrow> expr option \<times> NamesSets"
where
  "exportExpression_expr cm im f (Identifier x) em = (Identifier x, em)"
| "exportExpression_expr cm im f (Literal x) em = (Literal x, em)"
| "exportExpression_expr cm im f (CallExpression e args) em =
     (let (e', em1) = exportExpression_expr cm im f e em;
          (args', em2) = exportExpression_exprs cm im f args em1
      in (CallExpression e' args', em2))"
| "exportExpression_expr cm im f (PropertyAccessExpression e x) em =
     (let (e', em1) = exportExpression_expr cm im f e em in (PropertyAccessExpression e' x, em1))"
| "exportExpression_expr cm im f (NewExpression e args) em =
     (let (e', em1) = exportExpression_expr cm im f e em;
          (args', em2) = exportExpression_exprs cm im f args em1
      in (NewExpression e' args', em2))"
| "exportExpression_expr cm im f (ArrowFunction ps e) em =
     (let (e', em1) = exportExpression_expr cm im f e em in (ArrowFunction ps e', em1))"
| "exportExpression_expr cm im f (FunctionLike k x ps body) em =
     (let (body', em1) = exportExpression_stmts cm im f body em in (FunctionLike k x ps body', em1))"
| "exportExpression_expr cm im f (OtherExpression k es) em =
     (let (es', em1) = exportExpression_exprs cm im f es em in (OtherExpression k es', em1))"
| "exportExpression_exprs cm im f [] em = ([], em)"
| "exportExpression_exprs cm im f (e # es) em =
     (let (e', em1) = exportExpression_expr cm im f e em;
          (es', em2) = exportExpression_exprs cm im f es em1
      in (e' # es', em2))"
| "exportExpression_stmt cm im f (VariableStatement mods k ds) em =
     (let (ds', em1) = exportExpression_decls cm im f ds em in (VariableStatement mods k ds', em1))"
| "exportExpression_stmt cm im f (FunctionDeclaration mods name ps body) em =
     (let (body', em1) = exportExpression_stmts cm im f body em
      in (FunctionDeclaration mods name ps body', em1))"
| "exportExpression_stmt cm im f (ClassDeclaration mods name members) em =
     (let (members', em1) = exportExpression_exprs cm im f members em
      in (ClassDeclaration mods name members', em1))"
| "exportExpression_stmt cm im f (EnumDeclaration mods name members) em =
     (let (members', em1) = exportExpression_exprs cm im f members em
      in (EnumDeclaration mods name members', em1))"
| "exportExpression_stmt cm im f (InterfaceDeclaration mods name) em =
     (InterfaceDeclaration mods name, em)"
| "exportExpression_stmt cm im f (TypeAliasDeclaration mods name) em =
     (TypeAliasDeclaration mods name, em)"
| "exportExpression_stmt cm im f (Block ss) em =
     (let (ss', em1) = exportExpression_stmts cm im f ss em in (Block ss', em1))"
| "exportExpression_stmt cm im f (ExpressionStatement e) em =
     (let (e', em1) = exportExpression_expr cm im f e em in (ExpressionStatement e', em1))"
| "exportExpression_stmt cm im f (ExportDeclaration specs from) em =
     (let (specs', em1) = exportExpression_specifiers cm im f specs em
      in (ExportDeclaration specs' from, em1))"
| "exportExpression_stmt cm im f (ExportAssignment e) em =
     (case e of
        Identifier b \<Rightarrow>
          (case export_lookup cm im f b em of
             (Some new, em') \<Rightarrow> (ExportAssignment (Identifier new), em')
           | (None, em') \<Rightarrow> (ExportAssignment (Identifier b), em'))
      | _ \<Rightarrow> (let (e', em1) = exportExpression_expr cm im f e em in (ExportAssignment e', em1)))"
| "exportExpression_stmt cm im f (ImportDeclaration clause spec) em =
     (ImportDeclaration clause spec, em)"
| "exportExpression_stmt cm im f (OtherStatement k es ss) em =
     (let (es', em1) = exportExpression_exprs cm im f es em;
          (ss', em2) = exportExpression_stmts cm im f ss em1
      in (OtherStatement k es' ss', em2))"
| "exportExpression_stmts cm im f [] em = ([], em)"
| "exportExpression_stmts cm im f (s # ss) em =
     (let (s', em1) = exportExpression_stmt cm im f s em;
          (ss', em2) = exportExpression_stmts cm im f ss em1
      in (s' # ss', em2))"
| "exportExpression_decls cm im f [] em = ([], em)"
| "exportExpression_decls cm im f (d # ds) em =
     (let (d', em1) = exportExpression_decl cm im f d em;
          (ds', em2) = exportExpression_decls cm im f ds em1
      in (d' # ds', em2))"
| "exportExpression_decl cm im f (name, init) em =
     (let (init', em1) = exportExpression_init cm im f init em in ((name, init'), em1))"
| "exportExpression_init cm im f None em = (None, em)"
| "exportExpression_init cm im f (Some e) em =
     (let (e', em1) = exportExpression_expr cm im f e em in (Some e', em1))"

text \<open>
  The handler \<^verbatim>\<open>exportExpression(callNameMap, importNameMap, exportNameMap, compilerOptions)\<close>.
\<close>

definition exportExpression ::
  "NamesSets \<Rightarrow> NamesSets \<Rightarrow> DepsFile \<Rightarrow> NamesSets \<Rightarrow> DepsFile \<times> NamesSets" where
  "exportExpression cm im d em =
     (let (c, em') = exportExpression_stmts cm im (dep_file d) (content d) em
      in (d\<lparr>content := c\<rparr>, em'))"

section \<open>The import rewriter\<close>

text \<open>\<^verbatim>\<open>String.prototype.trim\<close>, on the ASCII white space and line terminators.\<close>

definition is_space :: "char \<Rightarrow> bool" where
  "is_space c = (c \<in> set [CHR 0x09, CHR 0x0A, CHR 0x0B, CHR 0x0C, CHR 0x0D, CHR '' ''])"

definition trim :: "string \<Rightarrow> string" where
  "trim s = rev (dropWhile is_space (rev (dropWhile is_space s)))"

text \<open>The callback mapped over the elements of the named imports.\<close>

fun importExpression_elements ::
  "NamesSets \<Rightarrow> string \<Rightarrow> string \<Rightarrow> ImportSpecifier list \<Rightarrow> NamesSets \<Rightarrow>
     ImportSpecifier list \<times> NamesSets" where
  "importExpression_elements em moduleKey f [] im = ([], im)"
| "importExpression_elements em moduleKey f (ImportSpecifier propertyName n # els) im =
     (case find_entry em (trim n) moduleKey of
        Some mapping \<Rightarrow>
          (let (els', im') = importExpression_elements em moduleKey f els
                 (im @ [\<lparr>base = base mapping, entry_file = f, newName = newName mapping\<rparr>])
           in (ImportSpecifier propertyName (newName mapping) # els', im'))
      | None \<Rightarrow>
          (let (els', im') = importExpression_elements em moduleKey f els im
           in (ImportSpecifier propertyName n # els', im')))"

text \<open>
  The branch of the visitor for an import declaration. The default binding is looked up
  first, and on a match the declaration is returned with that binding rewritten and its
  named bindings as they were. Otherwise the elements of the named imports, if there are
  any, are mapped. Otherwise the children are visited, which changes nothing.
\<close>

definition importExpression_declaration ::
  "string \<Rightarrow> NamesSets \<Rightarrow> string \<Rightarrow> ImportClause option \<Rightarrow> string \<Rightarrow> NamesSets \<Rightarrow> stmt \<times> NamesSets" where
  "importExpression_declaration cwd em f importClause moduleSpecifier im =
     (let moduleKey = getModuleKeyFromSpecifier cwd moduleSpecifier f
      in case importClause of
           None \<Rightarrow> (ImportDeclaration None moduleSpecifier, im)
         | Some (ImportClause n namedBindings) \<Rightarrow>
             (case (case n of Some b \<Rightarrow> find_entry em (trim b) moduleKey | None \<Rightarrow> None) of
                Some mapping \<Rightarrow>
                  (ImportDeclaration
                     (Some (ImportClause (Some (newName mapping)) namedBindings)) moduleSpecifier,
                   im @ [\<lparr>base = base mapping, entry_file = f, newName = newName mapping\<rparr>])
              | None \<Rightarrow>
                  (case namedBindings of
                     Some (NamedImports els) \<Rightarrow>
                       (if els \<noteq> [] then
                          (let (els', im') = importExpression_elements em moduleKey f els im
                           in (ImportDeclaration (Some (ImportClause n (Some (NamedImports els'))))
                                 moduleSpecifier, im'))
                        else (ImportDeclaration importClause moduleSpecifier, im))
                   | _ \<Rightarrow> (ImportDeclaration importClause moduleSpecifier, im))))"

text \<open>\<^verbatim>\<open>visitor(node)\<close> of \<^verbatim>\<open>importExpression\<close>, with the import map as its state.\<close>

primrec
  importExpression_expr :: "string \<Rightarrow> NamesSets \<Rightarrow> string \<Rightarrow> expr \<Rightarrow> NamesSets \<Rightarrow> expr \<times> NamesSets" and
  importExpression_exprs ::
    "string \<Rightarrow> NamesSets \<Rightarrow> string \<Rightarrow> expr list \<Rightarrow> NamesSets \<Rightarrow> expr list \<times> NamesSets" and
  importExpression_stmt :: "string \<Rightarrow> NamesSets \<Rightarrow> string \<Rightarrow> stmt \<Rightarrow> NamesSets \<Rightarrow> stmt \<times> NamesSets" and
  importExpression_stmts ::
    "string \<Rightarrow> NamesSets \<Rightarrow> string \<Rightarrow> stmt list \<Rightarrow> NamesSets \<Rightarrow> stmt list \<times> NamesSets" and
  importExpression_decls ::
    "string \<Rightarrow> NamesSets \<Rightarrow> string \<Rightarrow> (BindingName \<times> expr option) list \<Rightarrow> NamesSets \<Rightarrow>
       (BindingName \<times> expr option) list \<times> NamesSets" and
  importExpression_decl ::
    "string \<Rightarrow> NamesSets \<Rightarrow> string \<Rightarrow> BindingName \<times> expr option \<Rightarrow> NamesSets \<Rightarrow>
       (BindingName \<times> expr option) \<times> NamesSets" and
  importExpression_init ::
    "string \<Rightarrow> NamesSets \<Rightarrow> string \<Rightarrow> expr option \<Rightarrow> NamesSets \<Rightarrow> expr option \<times> NamesSets"
where
  "importExpression_expr cwd em f (Identifier x) im = (Identifier x, im)"
| "importExpression_expr cwd em f (Literal x) im = (Literal x, im)"
| "importExpression_expr cwd em f (CallExpression e args) im =
     (let (e', im1) = importExpression_expr cwd em f e im;
          (args', im2) = importExpression_exprs cwd em f args im1
      in (CallExpression e' args', im2))"
| "importExpression_expr cwd em f (PropertyAccessExpression e x) im =
     (let (e', im1) = importExpression_expr cwd em f e im in (PropertyAccessExpression e' x, im1))"
| "importExpression_expr cwd em f (NewExpression e args) im =
     (let (e', im1) = importExpression_expr cwd em f e im;
          (args', im2) = importExpression_exprs cwd em f args im1
      in (NewExpression e' args', im2))"
| "importExpression_expr cwd em f (ArrowFunction ps e) im =
     (let (e', im1) = importExpression_expr cwd em f e im in (ArrowFunction ps e', im1))"
| "importExpression_expr cwd em f (FunctionLike k x ps body) im =
     (let (body', im1) = importExpression_stmts cwd em f body im in (FunctionLike k x ps body', im1))"
| "importExpression_expr cwd em f (OtherExpression k es) im =
     (let (es', im1) = importExpression_exprs cwd em f es im in (OtherExpression k es', im1))"
| "importExpression_exprs cwd em f [] im = ([], im)"
| "importExpression_exprs cwd em f (e # es) im =
     (let (e', im1) = importExpression_expr cwd em f e im;
          (es', im2) = importExpression_exprs cwd em f es im1
      in (e' # es', im2))"
| "importExpression_stmt cwd em f (VariableStatement mods k ds) im =
     (let (ds', im1) = importExpression_decls cwd em f ds im in (VariableStatement mods k ds', im1))"
| "importExpression_stmt cwd em f (FunctionDeclaration mods name ps body) im =
     (let (body', im1) = importExpression_stmts cwd em f body im
      in (FunctionDeclaration mods name ps body', im1))"
| "importExpression_stmt cwd em f (ClassDeclaration mods name members) im =
     (let (members', im1) = importExpression_exprs cwd em f members im
      in (ClassDeclaration mods name members', im1))"
| "importExpression_stmt cwd em f (EnumDeclaration mods name members) im =
     (let (members', im1) = importExpression_exprs cwd em f members im
      in (EnumDeclaration mods name members', im1))"
| "importExpression_stmt cwd em f (InterfaceDeclaration mods name) im =
     (InterfaceDeclaration mods name, im)"
| "importExpression_stmt cwd em f (TypeAliasDeclaration mods name) im =
     (TypeAliasDeclaration mods name, im)"
| "importExpression_stmt cwd em f (Block ss) im =
     (let (ss', im1) = importExpression_stmts cwd em f ss im in (Block ss', im1))"
| "importExpression_stmt cwd em f (ExpressionStatement e) im =
     (let (e', im1) = importExpression_expr cwd em f e im in (ExpressionStatement e', im1))"
| "importExpression_stmt cwd em f (ExportDeclaration specs from) im =
     (ExportDeclaration specs from, im)"
| "importExpression_stmt cwd em f (ExportAssignment e) im =
     (let (e', im1) = importExpression_expr cwd em f e im in (ExportAssignment e', im1))"
| "importExpression_stmt cwd em f (ImportDeclaration clause spec) im =
     importExpression_declaration cwd em f clause spec im"
| "importExpression_stmt cwd em f (OtherStatement k es ss) im =
     (let (es', im1) = importExpression_exprs cwd em f es im;
          (ss', im2) = importExpression_stmts cwd em f ss im1
      in (OtherStatement k es' ss', im2))"
| "importExpression_stmts cwd em f [] im = ([], im)"
| "importExpression_stmts cwd em f (s # ss) im =
     (let (s', im1) = importExpression_stmt cwd em f s im;
          (ss', im2) = importExpression_stmts cwd em f ss im1
      in (s' # ss', im2))"
| "importExpression_decls cwd em f [] im = ([], im)"
| "importExpression_decls cwd em f (d # ds) im =
     (let (d', im1) = importExpression_decl cwd em f d im;
          (ds', im2) = importExpression_decls cwd em f ds im1
      in (d' # ds', im2))"
| "importExpression_decl cwd em f (name, init) im =
     (let (init', im1) = importExpression_init cwd em f init im in ((name, init'), im1))"
| "importExpression_init cwd em f None im = (None, im)"
| "importExpression_init cwd em f (Some e) im =
     (let (e', im1) = importExpression_expr cwd em f e im in (Some e', im1))"

text \<open>The handler \<^verbatim>\<open>importExpression(exportNameMap, importNameMap, compilerOptions)\<close>.\<close>

definition importExpression ::
  "string \<Rightarrow> NamesSets \<Rightarrow> DepsFile \<Rightarrow> NamesSets \<Rightarrow> DepsFile \<times> NamesSets" where
  "importExpression cwd em d im =
     (let (c, im') = importExpression_stmts cwd em (dep_file d) (content d) im
      in (d\<lparr>content := c\<rparr>, im'))"

section \<open>The two pipelines\<close>

text \<open>
  \<^verbatim>\<open>deps.map(func)\<close> calls the handler on the modules in order; the handlers share the
  maps, so the state runs through the calls.
\<close>

fun map_deps :: "(DepsFile \<Rightarrow> 's \<Rightarrow> DepsFile \<times> 's) \<Rightarrow> DepsFile list \<Rightarrow> 's \<Rightarrow> DepsFile list \<times> 's" where
  "map_deps func [] st = ([], st)"
| "map_deps func (d # ds) st =
     (let (d', st1) = func d st;
          (ds', st2) = map_deps func ds st1
      in (d' # ds', st2))"

text \<open>
  What \<^verbatim>\<open>renamed\<close> reads and writes besides the modules: the four maps its caller passes
  (taken to be four distinct objects) and the generator \<^verbatim>\<open>dupName\<close> of the module.
\<close>

record Maps =
  namesMap :: DuplicatesNameMap
  callNameMap :: NamesSets
  importNameMap :: NamesSets
  exportNameMap :: NamesSets
  generator :: NameGenerator

text \<open>
  \<^verbatim>\<open>duplicateHandlers.renamed\<close>: the seven handlers, each mapped over all modules before the
  next one starts.
\<close>

definition renamed :: "string \<Rightarrow> DepsFile list \<Rightarrow> Maps \<Rightarrow> DepsFile list \<times> Maps" where
  "renamed cwd deps st =
     (let (deps1, nm) = map_deps collector deps (namesMap st);
          (deps2, (cm, gen)) = map_deps (updater nm) deps1 (callNameMap st, generator st);
          deps3 = map (callExpression cm (importNameMap st)) deps2;
          (deps4, em4) = map_deps (exportExpression cm (importNameMap st)) deps3 (exportNameMap st);
          (deps5, im) = map_deps (importExpression cwd em4) deps4 (importNameMap st);
          deps6 = map (callExpression cm im) deps5;
          (deps7, em7) = map_deps (exportExpression cm im) deps6 em4
      in (deps7, \<lparr>namesMap = nm, callNameMap = cm, importNameMap = im, exportNameMap = em7,
                  generator = gen\<rparr>))"

text \<open>
  \<^verbatim>\<open>duplicateHandlers.notRenamed\<close>: the collector is mapped over the modules and its result
  dropped; every name whose set has more than one member is written to the console with
  the files of the set; if there was one, the process exits with code 1, and otherwise
  the modules are returned as they were passed. The result is the map, the lines written
  by \<^verbatim>\<open>console.warn\<close>, and the exit or the returned modules.
\<close>

definition warnings :: "DuplicatesNameMap \<Rightarrow> string list" where
  "warnings nm =
     concat (map (\<lambda>(n, files).
        if length files > 1 then
          (''Name -> '' @ n @ '' declared in multiple files :'') # map (\<lambda>f. ''  - '' @ f) files
        else []) nm)"

definition notRenamed ::
  "DepsFile list \<Rightarrow> DuplicatesNameMap \<Rightarrow> DuplicatesNameMap \<times> string list \<times> (error + DepsFile list)" where
  "notRenamed deps nm0 =
     (let (deps', nm) = map_deps collector deps nm0;
          err = list_ex (\<lambda>(n, files). length files > 1) nm
      in (nm, warnings nm, if err then Inl (ProcessExit 1) else Inr deps))"

section \<open>Batches used in the examples\<close>

text \<open>
  The maps a caller creates for one run (\<^verbatim>\<open>new Map()\<close> and three empty arrays), with the
  generator in the state it has at that moment.
\<close>

definition fresh_maps :: "NameGenerator \<Rightarrow> Maps" where
  "fresh_maps g =
     \<lparr>namesMap = [], callNameMap = [], importNameMap = [], exportNameMap = [], generator = g\<rparr>"

text \<open>
  The batch of the repository's test:
  \<^verbatim>\<open>/project/a/index.ts\<close> is \<^verbatim>\<open>const foo = () => 1; export { foo };\<close>,
  \<^verbatim>\<open>/project/b/index.ts\<close> is \<^verbatim>\<open>const foo = () => 2; export { foo };\<close>,
  \<^verbatim>\<open>/project/main.ts\<close> is \<^verbatim>\<open>import { foo } from "./a"; export const sum = foo();\<close>
\<close>

definition scenario_a :: DepsFile where
  "scenario_a = \<lparr>dep_file = ''/project/a/index.ts'', content =
     [VariableStatement [] ''const''
        [(BindingIdentifier ''foo'', Some (ArrowFunction [] (Literal ''1'')))],
      ExportDeclaration [ExportSpecifier None ''foo''] None]\<rparr>"

definition scenario_b :: DepsFile where
  "scenario_b = \<lparr>dep_file = ''/project/b/index.ts'', content =
     [VariableStatement [] ''const''
        [(BindingIdentifier ''foo'', Some (ArrowFunction [] (Literal ''2'')))],
      ExportDeclaration [ExportSpecifier None ''foo''] None]\<rparr>"

definition scenario_main :: DepsFile where
  "scenario_main = \<lparr>dep_file = ''/project/main.ts'', content =
     [ImportDeclaration
        (Some (ImportClause None (Some (NamedImports [ImportSpecifier None ''foo''])))) ''./a'',
      VariableStatement [''export''] ''const''
        [(BindingIdentifier ''sum'', Some (CallExpression (Identifier ''foo'') []))]]\<rparr>"

text \<open>One module, \<^verbatim>\<open>/project/a.ts\<close>, with the text \<^verbatim>\<open>var x = 1; var x = 2;\<close>\<close>

definition twice_declared :: DepsFile where
  "twice_declared = \<lparr>dep_file = ''/project/a.ts'', content =
     [VariableStatement [] ''var'' [(BindingIdentifier ''x'', Some (Literal ''1''))],
      VariableStatement [] ''var'' [(BindingIdentifier ''x'', Some (Literal ''2''))]]\<rparr>"

text \<open>
  A batch with a default and a named import from the same module:
  \<^verbatim>\<open>/project/a/index.ts\<close> is
  \<^verbatim>\<open>const foo = () => 1; const bar = () => 2; export { bar }; export default foo;\<close>,
  \<^verbatim>\<open>/project/b/index.ts\<close> is \<^verbatim>\<open>const foo = () => 3; const bar = () => 4;\<close>,
  \<^verbatim>\<open>/project/main.ts\<close> is \<^verbatim>\<open>import foo, { bar } from "./a"; foo(); bar();\<close>
\<close>

definition both_a :: DepsFile where
  "both_a = \<lparr>dep_file = ''/project/a/index.ts'', content =
     [VariableStatement [] ''const''
        [(BindingIdentifier ''foo'', Some (ArrowFunction [] (Literal ''1'')))],
      VariableStatement [] ''const''
        [(BindingIdentifier ''bar'', Some (ArrowFunction [] (Literal ''2'')))],
      ExportDeclaration [ExportSpecifier None ''bar''] None,
      ExportAssignment (Identifier ''foo'')]\<rparr>"

definition both_b :: DepsFile where
  "both_b = \<lparr>dep_file = ''/project/b/index.ts'', content =
     [VariableStatement [] ''const''
        [(BindingIdentifier ''foo'', Some (ArrowFunction [] (Literal ''3'')))],
      VariableStatement [] ''const''
        [(BindingIdentifier ''bar'', Some (ArrowFunction [] (Literal ''4'')))]]\<rparr>"

definition both_main :: DepsFile where
  "both_main = \<lparr>dep_file = ''/project/main.ts'', content =
     [ImportDeclaration
        (Some (ImportClause (Some ''foo'') (Some (NamedImports [ImportSpecifier None ''bar'']))))
        ''./a'',
      ExpressionStatement (CallExpression (Identifier ''foo'') []),
      ExpressionStatement (CallExpression (Identifier ''bar'') [])]\<rparr>"



section \<open>Notions used in the statements\<close>

text \<open>The prefix \<^verbatim>\<open>getName\<close> puts before the input: \<^verbatim>\<open>_fix\<close>, or \<^verbatim>\<open>$nyein\<close> when it is falsy.\<close>

definition prefix_of :: "NameGenerator \<Rightarrow> string" where
  "prefix_of g = (if gen_fix g \<noteq> [] then gen_fix g else ''$nyein'')"

text \<open>
  The entries \<open>es\<close> carry, in order, the names a generator with prefix \<open>p\<close> hands out after
  it has handed out \<open>k\<close> names: the suffixes are \<open>k + 1\<close>, \<open>k + 2\<close>, and so on.
\<close>

fun generated_in_order :: "string \<Rightarrow> nat \<Rightarrow> NamesSets \<Rightarrow> bool" where
  "generated_in_order p k [] = True"
| "generated_in_order p k (e # es) =
     (newName e = p @ base e @ ''_'' @ string_of_nat (k + 1) \<and> generated_in_order p (k + 1) es)"

text \<open>
  The updater's state \<open>st'\<close> comes from \<open>st\<close> by rename events only: the prefix is the
  same, and the call-site map and the generator's names have grown by the same entries,
  numbered in order.
\<close>

definition updater_extends :: "updater_state \<Rightarrow> updater_state \<Rightarrow> bool" where
  "updater_extends st st' =
     (gen_fix (snd st') = gen_fix (snd st) \<and>
      (\<exists>es. fst st' = fst st @ es \<and> names (snd st') = names (snd st) @ map newName es \<and>
            generated_in_order (prefix_of (snd st)) (length (names (snd st))) es))"

text \<open>
  A plain segment of a path: not empty, not \<open>.\<close>, not \<open>..\<close>, and without a separator.
\<close>

definition plain :: "string \<Rightarrow> bool" where
  "plain s = (s \<noteq> [] \<and> s \<noteq> ''.'' \<and> s \<noteq> ''..'' \<and> CHR ''/'' \<notin> set s)"






section \<open>Properties\<close>

lemma dupName_setPrefix:
  "setPrefix [] ''DuplicatesNames'' ''d_'' = Inr ([(''DuplicatesNames'', ''d_'')], dupName)"
  by (simp add: setPrefix_def dupName_def)

subsection \<open>The scenario of the test\<close>

text \<open>
  C1. On the batch of the test, started with fresh maps and the generator as the module
  creates it, the renamed pipeline returns: module \<open>a\<close> declaring and exporting
  \<open>d_foo_1\<close>, module \<open>b\<close> declaring and exporting \<open>d_foo_2\<close>, and \<open>main\<close> importing
  \<open>{ d_foo_1 }\<close> from \<open>./a\<close> and calling \<open>d_foo_1()\<close>. The paths are absolute, so this
  holds in every working directory.
\<close>

theorem scenario_renamed:
  "fst (renamed cwd [scenario_a, scenario_b, scenario_main] (fresh_maps dupName)) =
     [\<lparr>dep_file = ''/project/a/index.ts'', content =
         [VariableStatement [] ''const''
            [(BindingIdentifier ''d_foo_1'', Some (ArrowFunction [] (Literal ''1'')))],
          ExportDeclaration [ExportSpecifier None ''d_foo_1''] None]\<rparr>,
      \<lparr>dep_file = ''/project/b/index.ts'', content =
         [VariableStatement [] ''const''
            [(BindingIdentifier ''d_foo_2'', Some (ArrowFunction [] (Literal ''2'')))],
          ExportDeclaration [ExportSpecifier None ''d_foo_2''] None]\<rparr>,
      \<lparr>dep_file = ''/project/main.ts'', content =
         [ImportDeclaration
            (Some (ImportClause None (Some (NamedImports [ImportSpecifier None ''d_foo_1'']))))
            ''./a'',
          VariableStatement [''export''] ''const''
            [(BindingIdentifier ''sum'', Some (CallExpression (Identifier ''d_foo_1'') []))]]\<rparr>]"
  by code_simp

subsection \<open>A name declared twice in one module\<close>

text \<open>
  C2. The verifier is claimed to report a name only when at least two distinct modules
  declare it at top level. On the batch of the single module \<open>twice_declared\<close> the set
  recorded for \<open>x\<close> has two members, both for the same file, so the verifier warns that
  \<open>x\<close> is declared in multiple files and exits.
\<close>

theorem notRenamed_reports_single_module:
  "notRenamed [twice_declared] [] =
     ([(''x'', [''/project/a.ts'', ''/project/a.ts''])],
      [''Name -> x declared in multiple files :'', ''  - /project/a.ts'', ''  - /project/a.ts''],
      Inl (ProcessExit 1))"
  by code_simp

text \<open>
  C4. The same batch has no name declared in two modules, and the renamed pipeline is
  claimed to return such a batch unchanged. It renames both declarations of \<open>x\<close>.
\<close>

theorem renamed_changes_collision_free_batch:
  "fst (renamed cwd [twice_declared] (fresh_maps dupName)) =
     [\<lparr>dep_file = ''/project/a.ts'', content =
         [VariableStatement [] ''var'' [(BindingIdentifier ''d_x_1'', Some (Literal ''1''))],
          VariableStatement [] ''var'' [(BindingIdentifier ''d_x_2'', Some (Literal ''2''))]]\<rparr>]"
  by code_simp

subsection \<open>A default and a named import in one declaration\<close>

text \<open>
  C8. The import rewriter is claimed to rewrite the default binding and every named
  specifier that has an entry in the export map. In the batch \<open>both_a\<close>, \<open>both_b\<close>,
  \<open>both_main\<close> the export map has entries for \<open>foo\<close> and for \<open>bar\<close> under the key of
  \<open>./a\<close>; the import declaration of \<open>main\<close> comes back with its default binding rewritten
  and its specifier \<open>bar\<close> as it was, the import map has the entry for \<open>foo\<close> only, and
  the call \<open>bar()\<close> is left as it was.
\<close>

theorem importExpression_default_skips_named:
  "exportNameMap (snd (renamed cwd [both_a, both_b, both_main] (fresh_maps dupName))) =
     [\<lparr>base = ''bar'', entry_file = ''/project/a'', newName = ''d_bar_2''\<rparr>,
      \<lparr>base = ''foo'', entry_file = ''/project/a'', newName = ''d_foo_1''\<rparr>] \<and>
   importNameMap (snd (renamed cwd [both_a, both_b, both_main] (fresh_maps dupName))) =
     [\<lparr>base = ''foo'', entry_file = ''/project/main.ts'', newName = ''d_foo_1''\<rparr>] \<and>
   fst (renamed cwd [both_a, both_b, both_main] (fresh_maps dupName)) ! 2 =
     \<lparr>dep_file = ''/project/main.ts'', content =
        [ImportDeclaration
           (Some (ImportClause (Some ''d_foo_1'')
              (Some (NamedImports [ImportSpecifier None ''bar'']))))
           ''./a'',
         ExpressionStatement (CallExpression (Identifier ''d_foo_1'') []),
         ExpressionStatement (CallExpression (Identifier ''bar'') [])]\<rparr>"
  by code_simp

subsection \<open>The verifier\<close>






subsection \<open>The call-site map comes first\<close>

text \<open>
  C9. When the call-site map and the import map both have an entry for \<open>(b, f)\<close>, the
  lookup yields the new name of the call-site entry, at each of the five rewriting sites:
  a call, a property access and a \<^verbatim>\<open>new\<close> expression in the reference rewriter, an export
  specifier and an export assignment in the export rewriter. The name chosen is then put
  in place unless it is the empty string (\<^verbatim>\<open>if (new_name)\<close>); the entry of the import map
  is used in neither case.
\<close>

theorem call_site_map_preferred:
  assumes "find_entry cm b f = Some m" and "find_entry im b f = Some m'"
  shows "new_name_of cm im b f = Some (newName m) \<and>
    callExpression_expr cm im f (CallExpression (Identifier b) args) =
      (if newName m = [] then CallExpression (Identifier b) (callExpression_exprs cm im f args)
       else CallExpression (Identifier (newName m)) args) \<and>
    callExpression_expr cm im f (PropertyAccessExpression (Identifier b) x) =
      (if newName m = [] then PropertyAccessExpression (Identifier b) x
       else PropertyAccessExpression (Identifier (newName m)) x) \<and>
    callExpression_expr cm im f (NewExpression (Identifier b) args) =
      (if newName m = [] then NewExpression (Identifier b) (callExpression_exprs cm im f args)
       else NewExpression (Identifier (newName m)) args) \<and>
    exportExpression_specifier cm im f (ExportSpecifier propertyName b) em =
      (ExportSpecifier propertyName (if newName m = [] then b else newName m),
       em @ [\<lparr>base = b, entry_file = getFileKey f, newName = newName m\<rparr>]) \<and>
    exportExpression_stmt cm im f (ExportAssignment (Identifier b)) em =
      (ExportAssignment (Identifier (if newName m = [] then b else newName m)),
       em @ [\<lparr>base = b, entry_file = getFileKey f, newName = newName m\<rparr>])"
  using assms by (simp add: new_name_of_def export_lookup_def)

theorem call_site_map_preferred_witness:
  "find_entry [\<lparr>base = ''foo'', entry_file = ''/project/a.ts'', newName = ''d_foo_1''\<rparr>]
     ''foo'' ''/project/a.ts'' =
     Some \<lparr>base = ''foo'', entry_file = ''/project/a.ts'', newName = ''d_foo_1''\<rparr> \<and>
   find_entry [\<lparr>base = ''foo'', entry_file = ''/project/a.ts'', newName = ''d_foo_7''\<rparr>]
     ''foo'' ''/project/a.ts'' =
     Some \<lparr>base = ''foo'', entry_file = ''/project/a.ts'', newName = ''d_foo_7''\<rparr> \<and>
   callExpression_expr [\<lparr>base = ''foo'', entry_file = ''/project/a.ts'', newName = ''d_foo_1''\<rparr>]
     [\<lparr>base = ''foo'', entry_file = ''/project/a.ts'', newName = ''d_foo_7''\<rparr>] ''/project/a.ts''
     (CallExpression (Identifier ''foo'') []) = CallExpression (Identifier ''d_foo_1'') []"
proof -
  have h1: "find_entry [\<lparr>base = ''foo'', entry_file = ''/project/a.ts'', newName = ''d_foo_1''\<rparr>]
     ''foo'' ''/project/a.ts'' =
     Some \<lparr>base = ''foo'', entry_file = ''/project/a.ts'', newName = ''d_foo_1''\<rparr>"
    by (simp add: find_entry_def)
  have h2: "find_entry [\<lparr>base = ''foo'', entry_file = ''/project/a.ts'', newName = ''d_foo_7''\<rparr>]
     ''foo'' ''/project/a.ts'' =
     Some \<lparr>base = ''foo'', entry_file = ''/project/a.ts'', newName = ''d_foo_7''\<rparr>"
    by (simp add: find_entry_def)
  from call_site_map_preferred [OF h1 h2, of "[]"] h1 h2 show ?thesis
    by simp
qed

subsection \<open>Destructuring patterns\<close>

lemma collector_nothing_nested:
  shows "collector_expr f g e m = m"
    and "collector_stmt f False s m = m"
    and "collector_exprs f g es m = m"
    and "collector_stmts f False ss m = m"
    and "collector_init f g i m = m"
    and "collector_decl f g d m = m"
    and "collector_decls f g ds m = m"
  by (induction e and s and es and ss and i and d and ds
      arbitrary: g m and m and g m and m and g m and g m and g m
      rule: collector_expr.induct collector_stmt.induct collector_exprs.induct
        collector_stmts.induct collector_init.induct collector_decl.induct collector_decls.induct)
     simp_all

lemma collect_declarations_patterns:
  "\<forall>d \<in> set ds. \<exists>ps. fst d = BindingPattern ps \<Longrightarrow> collect_declarations f ds m = m"
  by (induction f ds m rule: collect_declarations.induct) auto

lemma update_declarations_patterns:
  "\<forall>d \<in> set ds. \<exists>ps. fst d = BindingPattern ps \<Longrightarrow> update_declarations nm f ds st = (ds, st)"
  by (induction nm f ds st rule: update_declarations.induct) auto

text \<open>
  C10. A variable statement at top level whose declarations all bind destructuring
  patterns leaves the declaration index as it is when the collector visits it, whatever
  its initialisers are, and comes back from the updater as it went in, with the call-site
  map and the generator untouched, whatever the index says about the names it binds.
\<close>

theorem destructuring_not_collected_nor_renamed:
  assumes "\<forall>d \<in> set ds. \<exists>ps. fst d = BindingPattern ps"
  shows "collector_stmt f True (VariableStatement mods k ds) idx = idx \<and>
         updater_stmt nm f (VariableStatement mods k ds) st = (VariableStatement mods k ds, st)"
  using assms
  by (simp add: collector_nothing_nested collect_declarations_patterns
      update_declarations_patterns)

theorem destructuring_not_collected_nor_renamed_witness:
  "is_duplicate [(''foo'', [''/project/b.ts'', ''/project/c.ts''])] ''foo'' \<and>
   collector_stmt ''/project/a.ts'' True
     (VariableStatement [] ''const'' [(BindingPattern [''foo''], Some (Identifier ''o''))])
     [(''foo'', [''/project/b.ts'', ''/project/c.ts''])] =
     [(''foo'', [''/project/b.ts'', ''/project/c.ts''])] \<and>
   updater_stmt [(''foo'', [''/project/b.ts'', ''/project/c.ts''])] ''/project/a.ts''
     (VariableStatement [] ''const'' [(BindingPattern [''foo''], Some (Identifier ''o''))])
     ([], dupName) =
     (VariableStatement [] ''const'' [(BindingPattern [''foo''], Some (Identifier ''o''))],
      ([], dupName))"
proof -
  have h: "\<forall>d \<in> set [(BindingPattern [''foo''], Some (Identifier ''o''))]. \<exists>ps. fst d = BindingPattern ps"
    by simp
  have d: "is_duplicate [(''foo'', [''/project/b.ts'', ''/project/c.ts''])] ''foo''"
    by (simp add: is_duplicate_def Map_has_def Map_get_def)
  from destructuring_not_collected_nor_renamed [OF h] h d show ?thesis
    by blast
qed

subsection \<open>The numbering of the generated names\<close>

lemma getName_eq:
  "getName b g = (prefix_of g @ b @ ''_'' @ string_of_nat (length (names g) + 1),
                  g\<lparr>names := names g @ [prefix_of g @ b @ ''_'' @ string_of_nat (length (names g) + 1)]\<rparr>)"
  by (simp add: getName_def prefix_of_def Let_def)

lemma generated_in_order_append:
  "generated_in_order p k (es1 @ es2) =
   (generated_in_order p k es1 \<and> generated_in_order p (k + length es1) es2)"
  by (induction es1 arbitrary: k) auto

lemma generated_in_order_nth:
  "generated_in_order p k es \<Longrightarrow> i < length es \<Longrightarrow>
   newName (es ! i) = p @ base (es ! i) @ ''_'' @ string_of_nat (k + i + 1)"
proof (induction es arbitrary: k i)
  case Nil then show ?case by simp
next
  case (Cons e es)
  show ?case
  proof (cases i)
    case 0 with Cons.prems show ?thesis by simp
  next
    case (Suc j)
    with Cons.prems have "newName (es ! j) = p @ base (es ! j) @ ''_'' @ string_of_nat (k + 1 + j + 1)"
      using Cons.IH [of "k + 1" j] by simp
    with Suc show ?thesis by simp
  qed
qed

lemma updater_extends_refl: "updater_extends st st"
  by (simp add: updater_extends_def)

lemma updater_extends_trans:
  assumes "updater_extends st st1" and "updater_extends st1 st2"
  shows "updater_extends st st2"
proof -
  from assms(1) obtain es1 where 1: "gen_fix (snd st1) = gen_fix (snd st)"
    "fst st1 = fst st @ es1" "names (snd st1) = names (snd st) @ map newName es1"
    "generated_in_order (prefix_of (snd st)) (length (names (snd st))) es1"
    by (auto simp: updater_extends_def)
  from assms(2) obtain es2 where 2: "gen_fix (snd st2) = gen_fix (snd st1)"
    "fst st2 = fst st1 @ es2" "names (snd st2) = names (snd st1) @ map newName es2"
    "generated_in_order (prefix_of (snd st1)) (length (names (snd st1))) es2"
    by (auto simp: updater_extends_def)
  from 1(1) have p: "prefix_of (snd st1) = prefix_of (snd st)" by (simp add: prefix_of_def)
  have "generated_in_order (prefix_of (snd st)) (length (names (snd st))) (es1 @ es2)"
    using 1(3,4) 2(4) p by (simp add: generated_in_order_append)
  moreover have "fst st2 = fst st @ (es1 @ es2)" using 1(2) 2(2) by simp
  moreover have "names (snd st2) = names (snd st) @ map newName (es1 @ es2)" using 1(3) 2(3) by simp
  ultimately show ?thesis using 1(1) 2(1) unfolding updater_extends_def by metis
qed

lemma updater_extends_getName:
  "updater_extends (cm, g) (cm @ [\<lparr>base = b, entry_file = f, newName = fst (getName b g)\<rparr>], snd (getName b g))"
  unfolding updater_extends_def
  by (rule conjI, simp add: getName_eq, rule exI [of _ "[\<lparr>base = b, entry_file = f, newName = fst (getName b g)\<rparr>]"])
     (simp add: getName_eq)

lemma update_declarations_extends:
  "updater_extends st (snd (update_declarations nm f ds st))"
proof (induction ds arbitrary: st)
  case Nil
  then show ?case by (simp add: updater_extends_refl)
next
  case (Cons d ds)
  obtain cm g where st: "st = (cm, g)" by (cases st)
  obtain bn init where d: "d = (bn, init)" by (cases d)
  show ?case
  proof (cases bn)
    case (BindingPattern ps)
    with Cons [of st] d show ?thesis by (simp add: split_beta)
  next
    case (BindingIdentifier b)
    show ?thesis
    proof (cases "is_duplicate nm b")
      case False
      with Cons [of st] d st BindingIdentifier show ?thesis by (simp add: split_beta)
    next
      case True
      let ?st1 = "(cm @ [\<lparr>base = b, entry_file = f, newName = fst (getName b g)\<rparr>], snd (getName b g))"
      have "updater_extends st (snd (update_declarations nm f ds ?st1))"
        using updater_extends_trans [OF updater_extends_getName Cons [of ?st1]] st by simp
      with True d st BindingIdentifier show ?thesis by (simp add: split_beta)
    qed
  qed
qed

lemma updater_visit_extends:
  shows "updater_extends st (snd (updater_expr nm f e st))"
    and "updater_extends st (snd (updater_stmt nm f s st))"
    and "updater_extends st (snd (updater_exprs nm f es st))"
    and "updater_extends st (snd (updater_stmts nm f ss st))"
proof (induction e and s and es and ss arbitrary: st and st and st and st
    rule: updater_expr.induct updater_stmt.induct updater_exprs.induct updater_stmts.induct)
  case (FunctionDeclaration mods name ps body)
  show ?case
  proof (cases "renamed_name nm name")
    case None
    with FunctionDeclaration show ?thesis by (simp add: split_beta)
  next
    case (Some b)
    with updater_extends_getName [of "fst st" "snd st" b f] show ?thesis
      by (simp add: split_beta)
  qed
next
  case (ClassDeclaration mods name members)
  show ?case
  proof (cases "renamed_name nm name")
    case None
    with ClassDeclaration show ?thesis by (simp add: split_beta)
  next
    case (Some b)
    with updater_extends_getName [of "fst st" "snd st" b f] show ?thesis
      by (simp add: split_beta)
  qed
next
  case (VariableStatement mods k ds)
  show ?case using update_declarations_extends [of st nm f ds] by (simp add: split_beta)
qed (simp_all add: split_beta updater_extends_refl, (blast intro: updater_extends_trans)+)

lemma map_deps_updater_extends:
  "updater_extends st (snd (map_deps (updater nm) deps st))"
proof (induction deps arbitrary: st)
  case Nil then show ?case by (simp add: updater_extends_refl)
next
  case (Cons d deps)
  have a: "updater_extends st (snd (updater nm d st))"
    using updater_visit_extends(4) [of st nm "dep_file d" "content d"]
    by (simp add: updater_def split_beta)
  from updater_extends_trans [OF a Cons [of "snd (updater nm d st)"]] show ?case
    by (simp add: split_beta)
qed

lemma renamed_updater_state:
  "(callNameMap (snd (renamed cwd deps st)), generator (snd (renamed cwd deps st))) =
   snd (map_deps (updater (snd (map_deps collector deps (namesMap st))))
          (fst (map_deps collector deps (namesMap st))) (callNameMap st, generator st))"
  by (simp add: renamed_def split_beta Let_def)

text \<open>
  C5, as the code has it. The generator \<^verbatim>\<open>dupName\<close> is created once, when the module is
  loaded, and \<^verbatim>\<open>renamed\<close> neither creates nor resets it. In one invocation that starts
  when the generator has handed out \<open>k\<close> names, the entries appended to the call-site map,
  in processing order, carry the suffixes \<open>k + 1\<close>, \<open>k + 2\<close>, ..., whatever their base names
  are, and the generator ends with those names added. The suffixes are \<open>1, ..., n\<close> in the
  first invocation after the module is loaded, where \<open>k = 0\<close>.
\<close>

theorem renamed_suffixes:
  "\<exists>es. callNameMap (snd (renamed cwd deps st)) = callNameMap st @ es \<and>
        names (generator (snd (renamed cwd deps st))) = names (generator st) @ map newName es \<and>
        (\<forall>i < length es. newName (es ! i) =
           prefix_of (generator st) @ base (es ! i) @ ''_'' @
           string_of_nat (length (names (generator st)) + i + 1))"
proof -
  let ?nm = "snd (map_deps collector deps (namesMap st))"
  let ?d1 = "fst (map_deps collector deps (namesMap st))"
  have "updater_extends (callNameMap st, generator st)
          (callNameMap (snd (renamed cwd deps st)), generator (snd (renamed cwd deps st)))"
    unfolding renamed_updater_state by (rule map_deps_updater_extends)
  then obtain es where es: "callNameMap (snd (renamed cwd deps st)) = callNameMap st @ es"
    "names (generator (snd (renamed cwd deps st))) = names (generator st) @ map newName es"
    "generated_in_order (prefix_of (generator st)) (length (names (generator st))) es"
    by (auto simp: updater_extends_def)
  from es(3) have "\<forall>i < length es. newName (es ! i) =
           prefix_of (generator st) @ base (es ! i) @ ''_'' @
           string_of_nat (length (names (generator st)) + i + 1)"
    by (auto dest: generated_in_order_nth)
  with es(1,2) show ?thesis by blast
qed


theorem renamed_suffixes_witness:
  "(1::nat) < length (callNameMap (snd (renamed ''/project'' [scenario_a, scenario_b, scenario_main] (fresh_maps dupName)))) \<and>
   newName (callNameMap (snd (renamed ''/project'' [scenario_a, scenario_b, scenario_main] (fresh_maps dupName))) ! 1) =
     ''d_foo_2''"
proof -
  let ?r = "snd (renamed ''/project'' [scenario_a, scenario_b, scenario_main] (fresh_maps dupName))"
  have v: "callNameMap ?r =
     [\<lparr>base = ''foo'', entry_file = ''/project/a/index.ts'', newName = ''d_foo_1''\<rparr>,
      \<lparr>base = ''foo'', entry_file = ''/project/b/index.ts'', newName = ''d_foo_2''\<rparr>]"
    by code_simp
  from renamed_suffixes [of "''/project''" "[scenario_a, scenario_b, scenario_main]" "fresh_maps dupName"]
  obtain es where es: "callNameMap ?r = callNameMap (fresh_maps dupName) @ es"
    "\<forall>i < length es. newName (es ! i) =
           prefix_of (generator (fresh_maps dupName)) @ base (es ! i) @ ''_'' @
           string_of_nat (length (names (generator (fresh_maps dupName))) + i + 1)"
    by blast
  from es(1) have e: "es = callNameMap ?r" by (simp add: fresh_maps_def)
  have l: "(1::nat) < length (callNameMap ?r)" unfolding v by simp
  have p: "prefix_of (generator (fresh_maps dupName)) = ''d_''" "length (names (generator (fresh_maps dupName))) = 0"
    by (simp_all add: fresh_maps_def dupName_def prefix_of_def)
  have s2: "string_of_nat 2 = ''2''" by code_simp
  have b1: "base (callNameMap ?r ! 1) = ''foo''" unfolding v by simp
  from es(2) [rule_format, of 1] l have "newName (callNameMap ?r ! 1) =
           ''d_'' @ ''foo'' @ ''_'' @ string_of_nat 2"
    unfolding e p b1 by (simp add: numeral_2_eq_2)
  with l s2 show ?thesis by simp
qed

text \<open>
  C5, as the claim has it, says that no generator state persists across invocations, so
  that every invocation numbers from 1. A second invocation in the same process, on the
  batch of the test and with fresh maps, starts from the generator the first one left
  behind and hands out the suffixes 3 and 4.
\<close>

theorem renamed_second_invocation:
  "map newName (callNameMap (snd (renamed ''/project'' [scenario_a, scenario_b, scenario_main]
     (fresh_maps (generator (snd (renamed ''/project'' [scenario_a, scenario_b, scenario_main]
        (fresh_maps dupName)))))))) = [''d_foo_3'', ''d_foo_4'']"
  by code_simp

subsection \<open>What the updater renames\<close>








text \<open>
  The condition on the body of a function or class with a unique name is needed: the
  visitor of the updater carries no scope flag, so it descends into a declaration it does
  not rename and renames a nested declaration whose name has two entries in the index.
\<close>

lemma updater_renames_nested_declaration:
  "updater [(''foo'', [''/project/b.ts'', ''/project/c.ts'']), (''g'', [''/project/a.ts''])]
     \<lparr>dep_file = ''/project/a.ts'', content =
        [FunctionDeclaration [] (Some ''g'') []
           [VariableStatement [] ''const'' [(BindingIdentifier ''foo'', Some (Literal ''1''))]]]\<rparr>
     ([], dupName) =
     (\<lparr>dep_file = ''/project/a.ts'', content =
        [FunctionDeclaration [] (Some ''g'') []
           [VariableStatement [] ''const'' [(BindingIdentifier ''d_foo_1'', Some (Literal ''1''))]]]\<rparr>,
      ([\<lparr>base = ''foo'', entry_file = ''/project/a.ts'', newName = ''d_foo_1''\<rparr>],
       \<lparr>gen_fix = ''d_'', names = [''d_foo_1'']\<rparr>))"
  by code_simp


subsection \<open>Directories and their index modules\<close>

lemma split_path_nonempty [simp]: "split_path xs \<noteq> []"
  by (induction xs) (auto split: list.splits)

lemma split_path_append_slash:
  "split_path (xs @ CHR ''/'' # ys) = split_path xs @ split_path ys"
  by (induction xs) (auto split: list.splits)

lemma split_path_noslash: "CHR ''/'' \<notin> set s \<Longrightarrow> split_path s = [s]"
  by (induction s) auto

lemma split_path_slash_free: "s \<in> set (split_path xs) \<Longrightarrow> CHR ''/'' \<notin> set s"
proof (induction xs arbitrary: s)
  case Nil then show ?case by simp
next
  case (Cons c cs)
  show ?case
  proof (cases "c = CHR ''/''")
    case True with Cons show ?thesis by auto
  next
    case False
    obtain h t where ht: "split_path cs = h # t" by (cases "split_path cs") auto
    with Cons False show ?thesis by auto
  qed
qed

lemma join_path_snoc:
  "join_path (xs @ [y]) = (if xs = [] then y else join_path xs @ CHR ''/'' # y)"
  by (induction xs rule: join_path.induct) auto

lemma join_path_Cons: "ys \<noteq> [] \<Longrightarrow> join_path (x # ys) = x @ CHR ''/'' # join_path ys"
  by (cases ys) auto

lemma split_join:
  "L \<noteq> [] \<Longrightarrow> \<forall>s \<in> set L. CHR ''/'' \<notin> set s \<Longrightarrow> split_path (join_path L) = L"
proof (induction L rule: join_path.induct)
  case 1 then show ?case by simp
next
  case (2 s) then show ?case by (simp add: split_path_noslash)
next
  case (3 s t ts)
  then show ?case by (simp add: split_path_append_slash split_path_noslash)
qed

lemma foldl_step_plain:
  "list_all plain L \<Longrightarrow> foldl (normalize_step al) acc L = acc @ L"
  by (induction L arbitrary: acc) (auto simp: normalize_step_def plain_def)

lemma step_keeps_plain:
  "list_all plain acc \<Longrightarrow> CHR ''/'' \<notin> set s \<Longrightarrow> list_all plain (normalize_step False acc s)"
  by (auto simp: normalize_step_def plain_def list_all_iff dest: in_set_butlastD)

lemma foldl_keeps_plain:
  "list_all plain acc \<Longrightarrow> \<forall>s \<in> set S. CHR ''/'' \<notin> set s \<Longrightarrow>
   list_all plain (foldl (normalize_step False) acc S)"
  by (induction S arbitrary: acc) (auto simp: step_keeps_plain)

lemma resolve_loop_acc:
  "resolve_loop ps acc = (fst (resolve_loop ps []) @ acc, snd (resolve_loop ps []))"
proof (induction ps arbitrary: acc)
  case Nil then show ?case by simp
next
  case (Cons p ps)
  show ?case
    using Cons [of "p @ ''/'' @ acc"] Cons [of "p @ ''/''"] Cons [of acc]
    by (auto simp: split_beta)
qed

lemma join_path_nonempty: "L \<noteq> [] \<Longrightarrow> list_all plain L \<Longrightarrow> join_path L \<noteq> []"
  by (induction L rule: join_path.induct) (auto simp: plain_def)

lemma join_path_last:
  "L \<noteq> [] \<Longrightarrow> list_all plain L \<Longrightarrow> last (join_path L) \<noteq> CHR ''/''"
proof (induction L rule: join_path.induct)
  case 1 then show ?case by simp
next
  case (2 s)
  then have "last s \<in> set s" "CHR ''/'' \<notin> set s" by (auto simp: plain_def)
  then show ?case by auto
next
  case (3 s t ts)
  then have "join_path (t # ts) \<noteq> []" by (intro join_path_nonempty) auto
  with 3 show ?case by simp
qed

lemma path_normalize_normal:
  assumes "L \<noteq> []" and "list_all plain L"
  shows "path_normalize (CHR ''/'' # join_path L) = CHR ''/'' # join_path L"
proof -
  have s: "split_path (CHR ''/'' # join_path L) = [] # L"
    using assms by (simp add: split_join plain_def list_all_iff)
  have n: "normalizeString (CHR ''/'' # join_path L) False = join_path L"
    unfolding normalizeString_def s using assms
    by (simp add: normalize_step_def foldl_step_plain)
  have l: "last (CHR ''/'' # join_path L) \<noteq> CHR ''/''"
    using join_path_last [OF assms] join_path_nonempty [OF assms] by simp
  show ?thesis
    using n l join_path_nonempty [OF assms]
    by (simp add: path_normalize_def isAbsolute_def Let_def)
qed

lemma path_normalize_double_slash:
  assumes "plain d"
  shows "path_normalize (CHR ''/'' # CHR ''/'' # d) = CHR ''/'' # d"
proof -
  from assms have ns: "CHR ''/'' \<notin> set d" and ne: "d \<noteq> []" by (auto simp: plain_def)
  have s: "split_path (CHR ''/'' # CHR ''/'' # d) = [[], [], d]"
    using ns by (simp add: split_path_noslash)
  have n: "normalizeString (CHR ''/'' # CHR ''/'' # d) False = d"
    unfolding normalizeString_def s using assms
    by (simp add: normalize_step_def plain_def)
  have "last d \<in> set d" using ne by simp
  with ns have l: "last d \<noteq> CHR ''/''" by auto
  show ?thesis using n l ne
    by (simp add: path_normalize_def isAbsolute_def Let_def)
qed

lemma path_parse_last_segment:
  assumes "x \<noteq> []" and "CHR ''/'' \<notin> set x"
  shows "parsed_dir (path_parse (Y @ CHR ''/'' # x)) = (if Y = [] then ''/'' else Y)"
    and "parsed_base (path_parse (Y @ CHR ''/'' # x)) = x"
    and "CHR ''.'' \<notin> set x \<Longrightarrow> parsed_name (path_parse (Y @ CHR ''/'' # x)) = x"
proof -
  let ?p = "Y @ CHR ''/'' # x"
  have lx: "last x \<noteq> CHR ''/''" using assms by (metis last_in_set)
  have tw: "takeWhile (\<lambda>c. c \<noteq> CHR ''/'') (rev x @ CHR ''/'' # zs) = rev x" for zs
    using assms(2) by (subst takeWhile_append2) auto
  have dw: "dropWhile (\<lambda>c. c \<noteq> CHR ''/'') (rev x @ CHR ''/'' # zs) = CHR ''/'' # zs" for zs
    using assms(2) by (subst dropWhile_append2) auto
  have d0: "dropWhile (\<lambda>c. c = CHR ''/'') (rev x @ zs) = rev x @ zs" for zs
    using assms(1) lx by (cases x rule: rev_cases) auto
  have twx: "takeWhile (\<lambda>c. c \<noteq> CHR ''/'') (rev x) = rev x"
    using assms(2) by auto
  have dwx: "dropWhile (\<lambda>c. c \<noteq> CHR ''/'') (rev x) = []"
    using assms(2) by auto
  show "parsed_dir (path_parse ?p) = (if Y = [] then ''/'' else Y)"
  proof (cases Y)
    case Nil
    then show ?thesis
      by (simp add: path_parse_def Let_def d0 [of "[]", simplified] twx dwx)
  next
    case (Cons c cs)
    show ?thesis
    proof (cases "c = CHR ''/''")
      case True
      with Cons show ?thesis
        by (simp add: path_parse_def Let_def d0 tw dw)
    next
      case False
      with Cons show ?thesis
        by (simp add: path_parse_def Let_def d0 tw dw)
    qed
  qed
  show b: "parsed_base (path_parse ?p) = x"
  proof (cases Y)
    case Nil
    then show ?thesis
      by (simp add: path_parse_def Let_def d0 [of "[]", simplified] twx dwx)
  next
    case (Cons c cs)
    show ?thesis
    proof (cases "c = CHR ''/''")
      case True
      with Cons show ?thesis
        by (simp add: path_parse_def Let_def d0 tw dw)
    next
      case False
      with Cons show ?thesis
        by (simp add: path_parse_def Let_def d0 tw dw)
    qed
  qed
  show "parsed_name (path_parse ?p) = x" if nd: "CHR ''.'' \<notin> set x"
  proof (cases Y)
    case Nil
    then show ?thesis using nd
      by (simp add: path_parse_def Let_def d0 [of "[]", simplified] twx dwx)
  next
    case (Cons c cs)
    show ?thesis
    proof (cases "c = CHR ''/''")
      case True
      with Cons nd show ?thesis
        by (simp add: path_parse_def Let_def d0 tw dw)
    next
      case False
      with Cons nd show ?thesis
        by (simp add: path_parse_def Let_def d0 tw dw)
    qed
  qed
qed

lemma parsed_name_is_base:
  assumes "p \<noteq> []"
    and "CHR ''.'' \<notin> set (parsed_base (path_parse p)) \<or>
         length (parsed_base (path_parse p)) - 1 -
           length (takeWhile (\<lambda>c. c \<noteq> CHR ''.'') (rev (parsed_base (path_parse p)))) = 0"
  shows "parsed_name (path_parse p) = parsed_base (path_parse p)"
proof -
  define r where "r = dropWhile (\<lambda>c. c = CHR ''/'') (rev (drop (if hd p = CHR ''/'' then 1 else 0) p))"
  define b where "b = rev (takeWhile (\<lambda>c. c \<noteq> CHR ''/'') r)"
  have pb: "parsed_base (path_parse p) = b"
    using assms(1) by (simp add: path_parse_def Let_def r_def b_def)
  have "parsed_name (path_parse p) = b"
    if "CHR ''.'' \<notin> set b \<or> length b - 1 - length (takeWhile (\<lambda>c. c \<noteq> CHR ''.'') (rev b)) = 0"
    using assms(1) that unfolding path_parse_def Let_def r_def [symmetric] b_def [symmetric]
    by auto
  with assms(2) pb show ?thesis by simp
qed

lemma path_parse_name_no_extension:
  assumes "x \<noteq> []" and "CHR ''/'' \<notin> set x" and "CHR ''.'' \<notin> set (tl x)"
  shows "parsed_name (path_parse (Y @ CHR ''/'' # x)) = x"
proof -
  have b: "parsed_base (path_parse (Y @ CHR ''/'' # x)) = x"
    by (rule path_parse_last_segment(2) [OF assms(1,2)])
  obtain c t where x: "x = c # t" using assms(1) by (cases x) auto
  have "CHR ''.'' \<notin> set x \<or> length x - 1 - length (takeWhile (\<lambda>c. c \<noteq> CHR ''.'') (rev x)) = 0"
  proof (cases "c = CHR ''.''")
    case False
    with x assms(3) show ?thesis by simp
  next
    case True
    have "takeWhile (\<lambda>c. c \<noteq> CHR ''.'') (rev t @ [c]) = rev t"
      using assms(3) x True by (subst takeWhile_append2) auto
    with x show ?thesis by simp
  qed
  with parsed_name_is_base [of "Y @ CHR ''/'' # x"] b show ?thesis by simp
qed

lemma normalizePathKey_segment:
  assumes "list_all plain R" and "plain d" and "CHR ''.'' \<notin> set (tl d)" and "d \<noteq> ''index''"
  shows "normalizePathKey (CHR ''/'' # join_path (R @ [d])) = CHR ''/'' # join_path (R @ [d])"
proof -
  from assms(2) have ne: "d \<noteq> []" and ns: "CHR ''/'' \<notin> set d" by (auto simp: plain_def)
  have pl: "list_all plain (R @ [d])" using assms(1,2) by simp
  show ?thesis
  proof (cases "R = []")
    case True
    have "parsed_dir (path_parse ([] @ CHR ''/'' # d)) = ''/''"
      "parsed_name (path_parse ([] @ CHR ''/'' # d)) = d"
      using path_parse_last_segment(1) [OF ne ns, of "[]"]
        path_parse_name_no_extension [OF ne ns assms(3), of "[]"] by simp_all
    then show ?thesis using True assms(4) ne path_normalize_double_slash [OF assms(2)]
        path_normalize_normal [of "[d]"] assms(2)
      by (simp add: normalizePathKey_def path_join_def Let_def)
  next
    case False
    let ?Y = "CHR ''/'' # join_path R"
    have k: "CHR ''/'' # join_path (R @ [d]) = ?Y @ CHR ''/'' # d"
      using False by (simp add: join_path_snoc)
    have "parsed_dir (path_parse (?Y @ CHR ''/'' # d)) = ?Y"
      "parsed_name (path_parse (?Y @ CHR ''/'' # d)) = d"
      using path_parse_last_segment(1) [OF ne ns, of ?Y]
        path_parse_name_no_extension [OF ne ns assms(3), of ?Y] by simp_all
    moreover have "join_path [?Y, d] = ?Y @ CHR ''/'' # d" by simp
    moreover have "path_normalize (?Y @ CHR ''/'' # d) = ?Y @ CHR ''/'' # d"
      using path_normalize_normal [of "R @ [d]"] pl k by simp
    ultimately show ?thesis unfolding k using assms(4) ne
      by (simp add: normalizePathKey_def path_join_def Let_def del: join_path.simps)
  qed
qed

lemma normalizePathKey_index:
  assumes "L \<noteq> []" and "list_all plain L"
  shows "normalizePathKey (CHR ''/'' # join_path (L @ [''index''])) = CHR ''/'' # join_path L"
proof -
  let ?Y = "CHR ''/'' # join_path L"
  have k: "CHR ''/'' # join_path (L @ [''index'']) = ?Y @ CHR ''/'' # ''index''"
    using assms(1) by (simp add: join_path_snoc)
  have "parsed_dir (path_parse (?Y @ CHR ''/'' # ''index'')) = ?Y"
    "parsed_name (path_parse (?Y @ CHR ''/'' # ''index'')) = ''index''"
    using path_parse_last_segment [of "''index''" ?Y] by simp_all
  then show ?thesis unfolding k using path_normalize_normal [OF assms]
    by (simp add: normalizePathKey_def Let_def)
qed

lemma path_dirname_nonempty: "path_dirname p \<noteq> []"
proof (cases "p = []")
  case True then show ?thesis by (simp add: path_dirname_def)
next
  case False
  define r where "r = dropWhile (\<lambda>c. c \<noteq> CHR ''/'') (dropWhile (\<lambda>c. c = CHR ''/'') (rev (tl p)))"
  have "path_dirname p = (if r = [] then (if hd p = CHR ''/'' then ''/'' else ''.'')
              else if hd p = CHR ''/'' \<and> length r = 1 then ''//''
              else take (length r) p)"
    using False unfolding path_dirname_def r_def Let_def by (rule if_not_P)
  moreover have "take (length r) p \<noteq> []" if "r \<noteq> []" using that False by simp
  ultimately show ?thesis by (simp split: if_splits)
qed

lemma path_resolve_directory:
  assumes "isAbsolute cwd" and "B \<noteq> []" and "pre = [] \<or> last pre = CHR ''/''" and "plain d"
  shows "\<exists>R. list_all plain R \<and>
     path_resolve cwd [B, ''./'' @ pre @ d] = CHR ''/'' # join_path (R @ [d]) \<and>
     path_resolve cwd [B, ''./'' @ pre @ d @ ''/index''] =
       CHR ''/'' # join_path ((R @ [d]) @ [''index''])"
proof -
  define X where "X = (if hd B = CHR ''/'' then B else cwd @ CHR ''/'' # B)"
  from assms(4) have ns: "CHR ''/'' \<notin> set d" by (simp add: plain_def)
  have r: "resolve_loop (rev [B, ''./'' @ s] @ [cwd]) [] =
      (X @ CHR ''/'' # CHR ''.'' # CHR ''/'' # s @ ''/'', True)" for s
    using assms(1,2) by (simp add: X_def isAbsolute_def)
  define W where "W = butlast (X @ CHR ''/'' # CHR ''.'' # CHR ''/'' # pre)"
  have w: "X @ CHR ''/'' # CHR ''.'' # CHR ''/'' # pre = W @ ''/''"
  proof -
    have "last (X @ CHR ''/'' # CHR ''.'' # CHR ''/'' # pre) = CHR ''/''"
      using assms(3) by auto
    then show ?thesis unfolding W_def
      by (metis append_butlast_last_id append_is_Nil_conv list.distinct(1))
  qed
  define R where "R = foldl (normalize_step False) [] (split_path W)"
  have pR: "list_all plain R" unfolding R_def
    by (rule foldl_keeps_plain) (auto dest: split_path_slash_free)
  have e1: "X @ CHR ''/'' # CHR ''.'' # CHR ''/'' # (pre @ d) @ ''/'' = W @ CHR ''/'' # d @ ''/''"
    using w by simp
  have e2: "X @ CHR ''/'' # CHR ''.'' # CHR ''/'' # (pre @ d @ ''/index'') @ ''/'' =
      W @ CHR ''/'' # d @ ''/index/''"
    using w by simp
  have s1: "split_path (W @ CHR ''/'' # d @ ''/'') = split_path W @ [d, []]"
    using ns by (simp add: split_path_append_slash split_path_noslash
        split_path_append_slash [of d "[]", simplified])
  have s2: "split_path (W @ CHR ''/'' # d @ ''/index/'') = split_path W @ [d, ''index'', []]"
    using ns by (simp add: split_path_append_slash split_path_noslash
        split_path_append_slash [of d "''index/''", simplified])
  have n1: "normalizeString (W @ CHR ''/'' # d @ ''/'') False = join_path (R @ [d])"
    unfolding normalizeString_def s1 using assms(4)
    by (simp add: R_def [symmetric] normalize_step_def plain_def)
  have n2: "normalizeString (W @ CHR ''/'' # d @ ''/index/'') False =
      join_path ((R @ [d]) @ [''index''])"
    unfolding normalizeString_def s2 using assms(4)
    by (simp add: R_def [symmetric] normalize_step_def plain_def)
  have "path_resolve cwd [B, ''./'' @ pre @ d] = CHR ''/'' # join_path (R @ [d])"
    unfolding path_resolve_def r e1 using n1 by simp
  moreover have "path_resolve cwd [B, ''./'' @ pre @ d @ ''/index''] =
      CHR ''/'' # join_path ((R @ [d]) @ [''index''])"
    unfolding path_resolve_def r e2 using n2 by simp
  ultimately show ?thesis using pR by blast
qed

text \<open>
  C7, as the code has it. Let the working directory be absolute, and let the directory be
  \<open>pre @ d\<close>: any leading segments \<open>pre\<close> (empty, or ending in a separator) and a last
  segment \<open>d\<close> that is a name without extension in the sense of \<^verbatim>\<open>path.parse\<close> (not empty,
  without a separator, not \<open>.\<close>, and with no dot after its first character) and is not
  \<open>index\<close>. Then the specifier \<open>./\<close> followed by \<open>pre @ d\<close>, and the same specifier
  followed by \<open>/index\<close>, resolved from any importing module path \<open>p\<close>, yield the same
  module key.
\<close>

theorem index_module_equivalence:
  assumes "isAbsolute cwd" and "pre = [] \<or> last pre = CHR ''/''"
    and "d \<noteq> []" and "CHR ''/'' \<notin> set d" and "d \<noteq> ''.''" and "CHR ''.'' \<notin> set (tl d)"
    and "d \<noteq> ''index''"
  shows "getModuleKeyFromSpecifier cwd (''./'' @ pre @ d) p =
         getModuleKeyFromSpecifier cwd (''./'' @ pre @ d @ ''/index'') p"
proof -
  have "d \<noteq> ''..''" using assms(6) by auto
  then have pd: "plain d" using assms(3,4,5) by (simp add: plain_def)
  from path_resolve_directory [OF assms(1) path_dirname_nonempty assms(2) pd, of p]
  obtain R where R: "list_all plain R"
    "path_resolve cwd [path_dirname p, ''./'' @ pre @ d] = CHR ''/'' # join_path (R @ [d])"
    "path_resolve cwd [path_dirname p, ''./'' @ pre @ d @ ''/index''] =
       CHR ''/'' # join_path ((R @ [d]) @ [''index''])"
    by blast
  have "normalizePathKey (CHR ''/'' # join_path (R @ [d])) = CHR ''/'' # join_path (R @ [d])"
    by (rule normalizePathKey_segment [OF R(1) pd assms(6,7)])
  moreover have "normalizePathKey (CHR ''/'' # join_path ((R @ [d]) @ [''index''])) =
      CHR ''/'' # join_path (R @ [d])"
    using R(1) pd by (intro normalizePathKey_index) simp_all
  ultimately show ?thesis
    unfolding getModuleKeyFromSpecifier_def using R(2,3) by simp
qed

theorem index_module_equivalence_witness:
  "isAbsolute ''/project'' \<and>
   getModuleKeyFromSpecifier ''/project'' ''./a'' ''/project/main.ts'' =
   getModuleKeyFromSpecifier ''/project'' ''./a/index'' ''/project/main.ts'' \<and>
   getModuleKeyFromSpecifier ''/project'' ''./lib/.config'' ''/project/main.ts'' =
   getModuleKeyFromSpecifier ''/project'' ''./lib/.config/index'' ''/project/main.ts''"
  using index_module_equivalence [of "''/project''" "[]" "''a''" "''/project/main.ts''"]
    index_module_equivalence [of "''/project''" "''lib/''" "''.config''" "''/project/main.ts''"]
  by (simp add: isAbsolute_def)

text \<open>
  C7, as the claim has it, is about every directory. It fails for the directory \<open>v1.2\<close>,
  whose name \<^verbatim>\<open>path.parse\<close> splits into the name \<open>v1\<close> and the extension \<open>.2\<close>, and for
  the directory \<open>index\<close>, which the rule for index modules takes for an index module
  itself.
\<close>

theorem dotted_directory_keys_differ:
  "getModuleKeyFromSpecifier ''/project'' ''./v1.2'' ''/project/main.ts'' = ''/project/v1'' \<and>
   getModuleKeyFromSpecifier ''/project'' ''./v1.2/index'' ''/project/main.ts'' = ''/project/v1.2'' \<and>
   getModuleKeyFromSpecifier ''/project'' ''./index'' ''/project/main.ts'' = ''/project'' \<and>
   getModuleKeyFromSpecifier ''/project'' ''./index/index'' ''/project/main.ts'' = ''/project/index''"
  by code_simp

end
